theory Spec2Isabelle
  imports Main "HOL-Library.Word"
begin

section \<open>Data model\<close>

text \<open>
  The embedding follows \<^verbatim>\<open>source/module.c\<close> of aws-crt-nodejs. The functions of
  that file are translated one by one, with explicit state passing: every function takes
  the \<open>world\<close> (native heap, host environment, statics of the file, logs) and returns the
  updated one. The N-API functions of the host and the aws-c-common helpers are external to
  the file; they are modelled in their own sections, from their documented behaviour, and
  kept apart from the translated functions.

  \<open>size_t\<close> is a 64-bit word, so \<open>+\<close> and \<open>*\<close> wrap as they do in C. A byte is a
  \<open>char\<close> (8 bits in HOL), a byte sequence a \<open>string\<close>.
\<close>

type_synonym size_t = "64 word"

text \<open>The status codes of N-API; \<open>napi_status_other\<close> stands for the codes a newer host
  adds to the enumeration.\<close>

datatype napi_status =
    napi_ok
  | napi_invalid_arg
  | napi_object_expected
  | napi_string_expected
  | napi_name_expected
  | napi_function_expected
  | napi_number_expected
  | napi_boolean_expected
  | napi_array_expected
  | napi_generic_failure
  | napi_pending_exception
  | napi_cancelled
  | napi_escape_called_twice
  | napi_handle_scope_mismatch
  | napi_callback_scope_mismatch
  | napi_queue_full
  | napi_closing
  | napi_bigint_expected
  | napi_status_other nat

datatype napi_valuetype =
    napi_undefined
  | napi_null
  | napi_boolean
  | napi_number
  | napi_string
  | napi_symbol
  | napi_object
  | napi_function
  | napi_external
  | napi_bigint

text \<open>\<open>napi_typedarray_type\<close> is read through \<open>int type_hack\<close> in the source, so it
  is an \<open>int\<close> here; the enumerators have their C values.\<close>

abbreviation napi_int8_array :: int where "napi_int8_array \<equiv> 0"
abbreviation napi_uint8_array :: int where "napi_uint8_array \<equiv> 1"
abbreviation napi_uint8_clamped_array :: int where "napi_uint8_clamped_array \<equiv> 2"
abbreviation napi_int16_array :: int where "napi_int16_array \<equiv> 3"
abbreviation napi_uint16_array :: int where "napi_uint16_array \<equiv> 4"
abbreviation napi_int32_array :: int where "napi_int32_array \<equiv> 5"
abbreviation napi_uint32_array :: int where "napi_uint32_array \<equiv> 6"
abbreviation napi_float32_array :: int where "napi_float32_array \<equiv> 7"
abbreviation napi_float64_array :: int where "napi_float64_array \<equiv> 8"

text \<open>A pointer is a block of the heap and an offset into it; \<open>None\<close> is \<open>NULL\<close>.\<close>

datatype pointer = Ptr (ptr_block: nat) (ptr_offset: nat)

text \<open>
  Host values. A string carries its UTF-8 encoding. A function carries its source text
  and the value it throws when called (\<open>None\<close>: it returns). An \<open>Error\<close> object carries
  its \<open>message\<close> and \<open>stack\<close> properties, which may hold any value. An ArrayBuffer names
  the heap block that is its backing store; a DataView and a typed array name the block
  of their ArrayBuffer, their byte offset into it and their length (in bytes for a
  DataView, in elements for a typed array).
\<close>

datatype js_value =
    JS_undefined
  | JS_null
  | JS_boolean bool
  | JS_number int
  | JS_string string
  | JS_symbol
  | JS_bigint int
  | JS_external
  | JS_function string "js_value option"
  | JS_object
  | JS_error js_value js_value
  | JS_arraybuffer nat
  | JS_dataview nat nat nat
  | JS_typedarray int nat nat nat

text \<open>\<open>enum aws_mem_trace_level\<close> of aws-c-common.\<close>

abbreviation AWS_MEMTRACE_NONE :: int where "AWS_MEMTRACE_NONE \<equiv> 0"
abbreviation AWS_MEMTRACE_BYTES :: int where "AWS_MEMTRACE_BYTES \<equiv> 1"
abbreviation AWS_MEMTRACE_STACKS :: int where "AWS_MEMTRACE_STACKS \<equiv> 2"

text \<open>An allocator is the process default allocator or a tracer built by
  \<open>aws_mem_tracer_new\<close> around another allocator, with its level and frames per stack.\<close>

datatype aws_allocator =
    Default_allocator
  | Mem_tracer aws_allocator int nat

record aws_byte_buf =
  len :: size_t
  buffer :: "pointer option"
  capacity :: size_t
  allocator :: "aws_allocator option"

record aws_byte_cursor =
  cur_len :: size_t
  cur_ptr :: "pointer option"

record napi_extended_error_info =
  error_message :: "string option"
  engine_error_code :: "32 word"
  error_code :: napi_status

text \<open>A formatted line: the format string and its arguments, as passed (the rendering of
  the line, in which \<open>%s\<close> stops at the first 0 byte of its argument, is not modelled).\<close>

datatype log_arg = Arg_str string | Arg_uint "32 word" | Arg_null

type_synonym log_line = "string \<times> log_arg list"

text \<open>The N-API entry points the file calls, as keys of the host's failure oracle, and
  the three binding functions of the repository's other files that \<open>NAPI_MODULE_INIT\<close>
  calls for their status.\<close>

datatype napi_call =
    N_typeof
  | N_get_value_string_utf8
  | N_is_arraybuffer
  | N_get_arraybuffer_info
  | N_is_dataview
  | N_get_dataview_info
  | N_is_typedarray
  | N_get_typedarray_info
  | N_create_arraybuffer
  | N_create_dataview
  | N_is_exception_pending
  | N_get_last_error_info
  | N_get_and_clear_last_exception
  | N_is_error
  | N_coerce_to_string
  | N_get_named_property
  | N_get_undefined
  | N_call_function
  | N_wrap
  | N_create_function
  | N_set_named_property
  | X_http_headers_bind
  | X_http_message_bind
  | X_auth_bind

text \<open>Calls into the host and into the aws-c libraries whose only effect of interest is
  that they happened, in this order.\<close>

datatype event =
    Mem_release aws_allocator pointer
  | Tsfn_acquire "nat option"
  | Tsfn_release "nat option"
  | Tsfn_unref "nat option"
  | Tsfn_call "nat option" nat
  | Install_crash_handler
  | Context_new aws_allocator
  | Cal_library_init
  | Http_library_init
  | Mqtt_library_init
  | Auth_library_init
  | Register_error_info
  | Register_log_subject_info_list
  | Event_loop_group_new nat
  | Host_resolver_new nat
  | Client_bootstrap_new nat
  | Client_bootstrap_release "nat option"
  | Host_resolver_release "nat option"
  | Event_loop_group_release "nat option"
  | Thread_join_all_managed
  | Unregister_log_subject_info_list
  | Unregister_error_info
  | Auth_library_clean_up
  | Mqtt_library_clean_up
  | Logger_destroy
  | Context_release aws_allocator
  | Mem_tracer_destroy aws_allocator
  | Register_function string

text \<open>
  The state everything runs in.
  \<^item> \<open>heap\<close>: the live blocks, native and host-owned, by block number; a released block is
    \<open>None\<close>. \<open>uninit_fill\<close> is the byte a fresh native block is filled with (its content is
    indeterminate in C).
  \<^item> \<open>alloc_oracle\<close>: whether the n-th native allocation succeeds.
  \<^item> \<open>stack_garbage\<close>: what a local \<open>struct aws_byte_buf\<close> holds before anything is
    stored in it.
  \<^item> \<open>napi_oracle\<close>: the status the host gives a call for reasons outside the model
    (\<open>napi_ok\<close>: the call behaves as documented).
  \<^item> \<open>host_to_string\<close>: ECMAScript's ToString on the values whose text the model does not
    fix; \<open>None\<close> where it throws.
  \<^item> \<open>newer_kinds\<close>: the typed-array element kinds beyond the eleven of kinds 0 to 10 for
    which this host has an enumerator of \<open>napi_typedarray_type\<close> (a host reports a kind
    only when it has an enumerator for it).
  \<^item> \<open>tsfn_thread_count\<close>: the reference count the host keeps for each threadsafe function.
  \<^item> \<open>env_memory_tracing\<close>: the value of \<open>AWS_CRT_MEMORY_TRACING\<close>; \<open>env_lookup_fails\<close>:
    \<open>aws_get_environment_value\<close> reports an error.
  \<^item> \<open>new_object_oracle\<close>: whether the n-th constructor call of an aws-c object
    (event loop group, host resolver, client bootstrap) returns an object.
  \<^item> the statics of module.c: \<open>s_allocator\<close>, \<open>s_node_uv_elg\<close>, \<open>s_default_host_resolver\<close>,
    \<open>s_default_client_bootstrap\<close>.
\<close>

record world =
  heap :: "nat \<Rightarrow> string option"
  next_block :: nat
  uninit_fill :: char
  alloc_oracle :: "nat \<Rightarrow> bool"
  alloc_count :: nat
  stack_garbage :: aws_byte_buf
  napi_oracle :: "napi_call \<Rightarrow> napi_status"
  host_to_string :: "js_value \<Rightarrow> string option"
  newer_kinds :: "int \<Rightarrow> bool"
  pending_exception :: "js_value option"
  last_error_info :: napi_extended_error_info
  tsfn_thread_count :: "nat \<Rightarrow> nat"
  log_out :: "log_line list"
  stderr_out :: "log_line list"
  trace :: "event list"
  env_memory_tracing :: "string option"
  env_lookup_fails :: bool
  new_object_oracle :: "nat \<Rightarrow> bool"
  new_object_count :: nat
  s_allocator :: "aws_allocator option"
  s_node_uv_elg :: "nat option"
  s_default_host_resolver :: "nat option"
  s_default_client_bootstrap :: "nat option"

text \<open>The outcome of code that can hit a fatal assertion: the process is terminated, or
  the code returns a value.\<close>

datatype 'a outcome = Fatal world | Returns 'a world


section \<open>The native heap and aws-c-common\<close>

text \<open>Reading \<open>n\<close> bytes at a pointer, and writing bytes at a pointer. A write that does
  not fit the block is not performed (it is undefined in C, and no modelled host call
  writes past the size it is given).\<close>

definition heap_read :: "world \<Rightarrow> pointer option \<Rightarrow> nat \<Rightarrow> string" where
  "heap_read w p n =
     (case p of
        None \<Rightarrow> []
      | Some q \<Rightarrow>
          (case heap w (ptr_block q) of
             None \<Rightarrow> []
           | Some xs \<Rightarrow> take n (drop (ptr_offset q) xs)))"

definition heap_write :: "world \<Rightarrow> pointer option \<Rightarrow> string \<Rightarrow> world" where
  "heap_write w p bs =
     (case p of
        None \<Rightarrow> w
      | Some q \<Rightarrow>
          (case heap w (ptr_block q) of
             None \<Rightarrow> w
           | Some xs \<Rightarrow>
               if ptr_offset q + length bs \<le> length xs
               then w\<lparr>heap := (heap w)(ptr_block q :=
                      Some (take (ptr_offset q) xs @ bs @ drop (ptr_offset q + length bs) xs))\<rparr>
               else w))"

text \<open>Pointer arithmetic: \<open>p + n\<close> for a byte pointer.\<close>

definition ptr_add :: "pointer option \<Rightarrow> nat \<Rightarrow> pointer option" where
  "ptr_add p n = (case p of None \<Rightarrow> None | Some q \<Rightarrow> Some (Ptr (ptr_block q) (ptr_offset q + n)))"

text \<open>\<open>aws_mem_acquire\<close>: a fresh block of \<open>sz\<close> bytes, or \<open>NULL\<close> when the
  allocation fails.\<close>

definition aws_mem_acquire :: "aws_allocator \<Rightarrow> size_t \<Rightarrow> world \<Rightarrow> pointer option \<times> world" where
  "aws_mem_acquire alloc sz w =
     (if alloc_oracle w (alloc_count w)
      then (Some (Ptr (next_block w) 0),
            w\<lparr>heap := (heap w)(next_block w := Some (replicate (unat sz) (uninit_fill w))),
              next_block := Suc (next_block w),
              alloc_count := Suc (alloc_count w)\<rparr>)
      else (None, w\<lparr>alloc_count := Suc (alloc_count w)\<rparr>))"

text \<open>\<open>aws_mem_release\<close>: the block is gone, and the call is recorded.\<close>

definition aws_mem_release :: "aws_allocator \<Rightarrow> pointer \<Rightarrow> world \<Rightarrow> world" where
  "aws_mem_release alloc p w =
     w\<lparr>heap := (heap w)(ptr_block p := None), trace := trace w @ [Mem_release alloc p]\<rparr>"

abbreviation AWS_OP_SUCCESS :: int where "AWS_OP_SUCCESS \<equiv> 0"
abbreviation AWS_OP_ERR :: int where "AWS_OP_ERR \<equiv> -1"

text \<open>\<open>aws_byte_buf_init\<close> of aws-c-common: no allocation for capacity 0; on a failed
  allocation the structure is zeroed and \<open>AWS_OP_ERR\<close> returned.\<close>

definition aws_byte_buf_init ::
  "aws_byte_buf \<Rightarrow> aws_allocator \<Rightarrow> size_t \<Rightarrow> world \<Rightarrow> int \<times> aws_byte_buf \<times> world" where
  "aws_byte_buf_init buf alloc cap w =
     (if cap = 0
      then (AWS_OP_SUCCESS,
            buf\<lparr>len := 0, buffer := None, capacity := cap, allocator := Some alloc\<rparr>, w)
      else
        (case aws_mem_acquire alloc cap w of
           (None, w1) \<Rightarrow>
             (AWS_OP_ERR,
              buf\<lparr>len := 0, buffer := None, capacity := 0, allocator := None\<rparr>, w1)
         | (Some p, w1) \<Rightarrow>
             (AWS_OP_SUCCESS,
              buf\<lparr>len := 0, buffer := Some p, capacity := cap, allocator := Some alloc\<rparr>, w1)))"

text \<open>\<open>aws_byte_buf_clean_up\<close> of aws-c-common: the memory is released when the buffer
  has an allocator and a pointer; all four fields are then zeroed.\<close>

definition aws_byte_buf_clean_up :: "aws_byte_buf \<Rightarrow> world \<Rightarrow> aws_byte_buf \<times> world" where
  "aws_byte_buf_clean_up buf w =
     (let w1 =
        (case (allocator buf, buffer buf) of
           (Some a, Some p) \<Rightarrow> aws_mem_release a p w
         | _ \<Rightarrow> w)
      in (buf\<lparr>len := 0, buffer := None, capacity := 0, allocator := None\<rparr>, w1))"

text \<open>\<open>aws_byte_buf_from_empty_array\<close>: a buffer over caller-owned memory, length 0.\<close>

definition aws_byte_buf_from_empty_array :: "pointer option \<Rightarrow> size_t \<Rightarrow> aws_byte_buf" where
  "aws_byte_buf_from_empty_array bytes cap =
     \<lparr>len = 0, buffer = bytes, capacity = cap, allocator = None\<rparr>"

text \<open>\<open>SIZE_MAX >> 1\<close>.\<close>

abbreviation SIZE_MAX_HALF :: size_t where "SIZE_MAX_HALF \<equiv> 0x7FFFFFFFFFFFFFFF"

text \<open>\<open>aws_byte_buf_write_from_whole_cursor\<close> (through \<open>aws_byte_buf_write\<close>): the
  cursor's bytes are appended when they fit the capacity, and nothing is written
  otherwise.\<close>

definition aws_byte_buf_write_from_whole_cursor ::
  "aws_byte_buf \<Rightarrow> aws_byte_cursor \<Rightarrow> world \<Rightarrow> bool \<times> aws_byte_buf \<times> world" where
  "aws_byte_buf_write_from_whole_cursor buf src w =
     (if cur_len src = 0 then (True, buf, w)
      else if len buf > SIZE_MAX_HALF \<or> cur_len src > SIZE_MAX_HALF
              \<or> len buf + cur_len src > capacity buf
      then (False, buf, w)
      else
        (True, buf\<lparr>len := len buf + cur_len src\<rparr>,
         heap_write w (ptr_add (buffer buf) (unat (len buf)))
           (heap_read w (cur_ptr src) (unat (cur_len src)))))"

text \<open>\<open>aws_string_new_from_array\<close>: a copy of \<open>n\<close> bytes as an \<open>aws_string\<close>, or
  \<open>NULL\<close> when the allocation fails. The string is modelled by its content.\<close>

definition aws_string_new_from_array ::
  "aws_allocator \<Rightarrow> pointer option \<Rightarrow> size_t \<Rightarrow> world \<Rightarrow> string option \<times> world" where
  "aws_string_new_from_array alloc bytes n w =
     (if alloc_oracle w (alloc_count w)
      then (Some (heap_read w bytes (unat n)), w\<lparr>alloc_count := Suc (alloc_count w)\<rparr>)
      else (None, w\<lparr>alloc_count := Suc (alloc_count w)\<rparr>))"

text \<open>\<open>aws_get_environment_value\<close> for \<open>AWS_CRT_MEMORY_TRACING\<close>: an error, or success
  with the value (\<open>NULL\<close> when the variable is not set).\<close>

definition aws_get_environment_value :: "world \<Rightarrow> int \<times> string option" where
  "aws_get_environment_value w =
     (if env_lookup_fails w then (AWS_OP_ERR, None) else (AWS_OP_SUCCESS, env_memory_tracing w))"

text \<open>\<open>aws_mem_tracer_new\<close>: a new allocator that wraps the given one, at any level.\<close>

definition aws_mem_tracer_new :: "aws_allocator \<Rightarrow> int \<Rightarrow> nat \<Rightarrow> aws_allocator" where
  "aws_mem_tracer_new alloc level frames_per_stack = Mem_tracer alloc level frames_per_stack"

subsection \<open>The C library's atoi\<close>

text \<open>
  \<open>atoi(s)\<close> is \<open>(int) strtol(s, NULL, 10)\<close> in glibc. \<open>decimal_value\<close> reads leading
  white space, an optional sign, then decimal digits up to the first other character, and
  gives the mathematical value. \<open>strtol\<close> gives that value when it fits a 64-bit
  \<open>long\<close> and \<open>LONG_MIN\<close> or \<open>LONG_MAX\<close> otherwise; the conversion to \<open>int\<close> keeps
  the low 32 bits, read as two's complement. For a value that fits an \<open>int\<close>, which is
  where the C standard defines \<open>atoi\<close>, the result is the value itself.
\<close>

definition is_space :: "char \<Rightarrow> bool" where
  "is_space c = (c = CHR '' '' \<or> (9 \<le> (of_char c :: nat) \<and> (of_char c :: nat) \<le> 13))"

definition is_digit :: "char \<Rightarrow> bool" where
  "is_digit c = (48 \<le> (of_char c :: nat) \<and> (of_char c :: nat) \<le> 57)"

fun atoi_digits :: "int \<Rightarrow> string \<Rightarrow> int" where
  "atoi_digits acc [] = acc"
| "atoi_digits acc (c # cs) =
     (if is_digit c then atoi_digits (acc * 10 + int (of_char c - 48)) cs else acc)"

definition decimal_value :: "string \<Rightarrow> int" where
  "decimal_value s =
     (case dropWhile is_space s of
        [] \<Rightarrow> 0
      | c # cs \<Rightarrow>
          if c = CHR ''-'' then - atoi_digits 0 cs
          else if c = CHR ''+'' then atoi_digits 0 cs
          else atoi_digits 0 (c # cs))"

abbreviation LONG_MIN :: int where "LONG_MIN \<equiv> - 9223372036854775808"
abbreviation LONG_MAX :: int where "LONG_MAX \<equiv> 9223372036854775807"

definition strtol :: "string \<Rightarrow> int" where
  "strtol s =
     (let v = decimal_value s
      in if v < LONG_MIN then LONG_MIN else if LONG_MAX < v then LONG_MAX else v)"

definition atoi :: "string \<Rightarrow> int" where
  "atoi s = sint (word_of_int (strtol s) :: 32 word)"

section \<open>Allocator indirection\<close>

text \<open>\<open>aws_napi_get_allocator\<close> (module.c, lines 442-463).\<close>

definition aws_napi_get_allocator :: "world \<Rightarrow> aws_allocator \<times> world" where
  "aws_napi_get_allocator w =
     (case s_allocator w of
        Some a \<Rightarrow> (a, w)
      | None \<Rightarrow>
          (case aws_get_environment_value w of
             (rc, None) \<Rightarrow> (Default_allocator, w\<lparr>s_allocator := Some Default_allocator\<rparr>)
           | (rc, Some v) \<Rightarrow>
               if rc \<noteq> AWS_OP_SUCCESS
               then (Default_allocator, w\<lparr>s_allocator := Some Default_allocator\<rparr>)
               else
                 (let level = atoi v;
                      out_of_range = (level < AWS_MEMTRACE_NONE \<or> level > AWS_MEMTRACE_STACKS);
                      w1 = (if out_of_range
                            then w\<lparr>stderr_out := stderr_out w @
                                   [(''AWS_CRT_MEMORY_TRACING is set to invalid value: %s, must be 0 (none), 1 (bytes), or 2 (stacks)'',
                                     [Arg_str v])]\<rparr>
                            else w);
                      level1 = (if out_of_range then AWS_MEMTRACE_NONE else level);
                      a = aws_mem_tracer_new Default_allocator level1 16
                  in (a, w1\<lparr>s_allocator := Some a\<rparr>))))"


section \<open>The host: N-API calls used by value marshaling\<close>

text \<open>Every call first consults the oracle; when the oracle says \<open>napi_ok\<close> the call
  does what the N-API documentation says for the value it is given.\<close>

fun js_typeof :: "js_value \<Rightarrow> napi_valuetype" where
  "js_typeof JS_undefined = napi_undefined"
| "js_typeof JS_null = napi_null"
| "js_typeof (JS_boolean b) = napi_boolean"
| "js_typeof (JS_number n) = napi_number"
| "js_typeof (JS_string s) = napi_string"
| "js_typeof JS_symbol = napi_symbol"
| "js_typeof (JS_bigint n) = napi_bigint"
| "js_typeof JS_external = napi_external"
| "js_typeof (JS_function src thrown) = napi_function"
| "js_typeof JS_object = napi_object"
| "js_typeof (JS_error m s) = napi_object"
| "js_typeof (JS_arraybuffer b) = napi_object"
| "js_typeof (JS_dataview b off n) = napi_object"
| "js_typeof (JS_typedarray t b off n) = napi_object"

definition napi_typeof :: "world \<Rightarrow> js_value \<Rightarrow> napi_status \<times> napi_valuetype" where
  "napi_typeof w v =
     (if napi_oracle w N_typeof \<noteq> napi_ok then (napi_oracle w N_typeof, napi_undefined)
      else (napi_ok, js_typeof v))"

text \<open>
  \<open>napi_get_value_string_utf8(env, value, buf, bufsize, result)\<close>. With \<open>buf = NULL\<close>
  the result is the length of the encoding. Otherwise, for \<open>bufsize \<noteq> 0\<close>, at most
  \<open>bufsize - 1\<close> bytes are copied, a terminating 0 byte is written after them, and the
  result is the number of bytes copied (the terminator not counted); for \<open>bufsize = 0\<close>
  the result is 0. (The host cuts a copy that does not fit at a character boundary; the
  model cuts at the byte.)
\<close>

definition napi_get_value_string_utf8 ::
  "world \<Rightarrow> js_value \<Rightarrow> pointer option \<Rightarrow> size_t \<Rightarrow> napi_status \<times> size_t \<times> world" where
  "napi_get_value_string_utf8 w v buf bufsize =
     (if napi_oracle w N_get_value_string_utf8 \<noteq> napi_ok
      then (napi_oracle w N_get_value_string_utf8, 0, w)
      else
        (case v of
           JS_string s \<Rightarrow>
             (case buf of
                None \<Rightarrow> (napi_ok, of_nat (length s), w)
              | Some p \<Rightarrow>
                  if bufsize \<noteq> 0
                  then (let copied = take (unat bufsize - 1) s
                        in (napi_ok, of_nat (length copied),
                            heap_write w buf (copied @ [CHR 0x00])))
                  else (napi_ok, 0, w))
         | _ \<Rightarrow> (napi_string_expected, 0, w)))"

fun js_is_arraybuffer :: "js_value \<Rightarrow> bool" where
  "js_is_arraybuffer (JS_arraybuffer b) = True"
| "js_is_arraybuffer v = False"

fun js_is_dataview :: "js_value \<Rightarrow> bool" where
  "js_is_dataview (JS_dataview b off n) = True"
| "js_is_dataview v = False"

fun js_is_typedarray :: "js_value \<Rightarrow> bool" where
  "js_is_typedarray (JS_typedarray t b off n) = True"
| "js_is_typedarray v = False"

definition napi_is_arraybuffer :: "world \<Rightarrow> js_value \<Rightarrow> napi_status \<times> bool" where
  "napi_is_arraybuffer w v =
     (if napi_oracle w N_is_arraybuffer \<noteq> napi_ok then (napi_oracle w N_is_arraybuffer, False)
      else (napi_ok, js_is_arraybuffer v))"

definition napi_is_dataview :: "world \<Rightarrow> js_value \<Rightarrow> napi_status \<times> bool" where
  "napi_is_dataview w v =
     (if napi_oracle w N_is_dataview \<noteq> napi_ok then (napi_oracle w N_is_dataview, False)
      else (napi_ok, js_is_dataview v))"

definition napi_is_typedarray :: "world \<Rightarrow> js_value \<Rightarrow> napi_status \<times> bool" where
  "napi_is_typedarray w v =
     (if napi_oracle w N_is_typedarray \<noteq> napi_ok then (napi_oracle w N_is_typedarray, False)
      else (napi_ok, js_is_typedarray v))"

text \<open>The size of a block in bytes (0 for a block that is not there).\<close>

definition block_size :: "world \<Rightarrow> nat \<Rightarrow> nat" where
  "block_size w b = (case heap w b of None \<Rightarrow> 0 | Some xs \<Rightarrow> length xs)"

text \<open>
  The three \<open>napi_get_..._info\<close> calls write their results through output parameters.
  Each model takes the values the output variables hold before the call and returns the
  values they hold after it: a failed call leaves them as they were.

  \<open>napi_get_arraybuffer_info(env, value, data, byte_length)\<close>: the start of the backing
  store and its size.
\<close>

definition napi_get_arraybuffer_info ::
  "world \<Rightarrow> js_value \<Rightarrow> pointer option \<Rightarrow> size_t \<Rightarrow> napi_status \<times> pointer option \<times> size_t" where
  "napi_get_arraybuffer_info w v data byte_length =
     (if napi_oracle w N_get_arraybuffer_info \<noteq> napi_ok
      then (napi_oracle w N_get_arraybuffer_info, data, byte_length)
      else
        (case v of
           JS_arraybuffer b \<Rightarrow> (napi_ok, Some (Ptr b 0), of_nat (block_size w b))
         | _ \<Rightarrow> (napi_invalid_arg, data, byte_length)))"

text \<open>\<open>napi_get_dataview_info(env, value, bytelength, data, NULL, NULL)\<close>: the length of
  the view in bytes and the address of its first byte.\<close>

definition napi_get_dataview_info ::
  "world \<Rightarrow> js_value \<Rightarrow> size_t \<Rightarrow> pointer option \<Rightarrow> napi_status \<times> size_t \<times> pointer option" where
  "napi_get_dataview_info w v bytelength data =
     (if napi_oracle w N_get_dataview_info \<noteq> napi_ok
      then (napi_oracle w N_get_dataview_info, bytelength, data)
      else
        (case v of
           JS_dataview b off n \<Rightarrow> (napi_ok, of_nat n, Some (Ptr b off))
         | _ \<Rightarrow> (napi_invalid_arg, bytelength, data)))"

text \<open>
  \<open>napi_get_typedarray_info(env, value, type, length, data, NULL, NULL)\<close>: the element
  kind, the number of elements and the address of the first element. The host finds the
  kind by asking the array, for each enumerator it has, whether it is of that kind; an
  array of a kind it has no enumerator for leaves \<open>*type\<close> as it was. Every host has the
  eleven enumerators 0 to 10.
\<close>

definition host_has_enumerator :: "world \<Rightarrow> int \<Rightarrow> bool" where
  "host_has_enumerator w t = ((0 \<le> t \<and> t \<le> 10) \<or> newer_kinds w t)"

definition napi_get_typedarray_info ::
  "world \<Rightarrow> js_value \<Rightarrow> int \<Rightarrow> size_t \<Rightarrow> pointer option
     \<Rightarrow> napi_status \<times> int \<times> size_t \<times> pointer option" where
  "napi_get_typedarray_info w v type n_elements data =
     (if napi_oracle w N_get_typedarray_info \<noteq> napi_ok
      then (napi_oracle w N_get_typedarray_info, type, n_elements, data)
      else
        (case v of
           JS_typedarray t b off n \<Rightarrow>
             (napi_ok, (if host_has_enumerator w t then t else type), of_nat n, Some (Ptr b off))
         | _ \<Rightarrow> (napi_invalid_arg, type, n_elements, data)))"

text \<open>\<open>napi_create_arraybuffer(env, byte_length, data, result)\<close>: a new ArrayBuffer over
  a fresh block of zero bytes.\<close>

definition napi_create_arraybuffer ::
  "world \<Rightarrow> size_t \<Rightarrow> napi_status \<times> pointer option \<times> js_value \<times> world" where
  "napi_create_arraybuffer w byte_length =
     (if napi_oracle w N_create_arraybuffer \<noteq> napi_ok
      then (napi_oracle w N_create_arraybuffer, None, JS_undefined, w)
      else
        (napi_ok, Some (Ptr (next_block w) 0), JS_arraybuffer (next_block w),
         w\<lparr>heap := (heap w)(next_block w := Some (replicate (unat byte_length) (CHR 0x00))),
           next_block := Suc (next_block w)\<rparr>))"

text \<open>\<open>napi_create_dataview(env, length, arraybuffer, byte_offset, result)\<close>: a view of
  \<open>length\<close> bytes at \<open>byte_offset\<close>; a view that does not fit the buffer makes the host
  throw a \<open>RangeError\<close>.\<close>

definition napi_create_dataview ::
  "world \<Rightarrow> size_t \<Rightarrow> js_value \<Rightarrow> size_t \<Rightarrow> napi_status \<times> js_value \<times> world" where
  "napi_create_dataview w n arraybuffer byte_offset =
     (if napi_oracle w N_create_dataview \<noteq> napi_ok
      then (napi_oracle w N_create_dataview, JS_undefined, w)
      else
        (case arraybuffer of
           JS_arraybuffer b \<Rightarrow>
             if unat byte_offset + unat n > block_size w b
             then (napi_pending_exception, JS_undefined,
                   w\<lparr>pending_exception :=
                        Some (JS_error (JS_string ''byte_offset + byte_length should be less than or equal to the size in bytes of the array passed in'')
                                       (JS_string ''RangeError''))\<rparr>)
             else (napi_ok, JS_dataview b (unat byte_offset) (unat n), w)
         | _ \<Rightarrow> (napi_invalid_arg, JS_undefined, w)))"

section \<open>Value marshaling\<close>

text \<open>
  Modelled from the spec: the macro \<open>AWS_NAPI_CALL(env, call, on_fail)\<close> of
  \<^verbatim>\<open>module.h\<close>, which is not among the sources. The spec has every fallible host
  operation fail with a status code that the caller checks; the uses in module.c bind the
  call's result to \<open>status\<close> and run \<open>on_fail\<close> when it is not \<open>napi_ok\<close>. Each use is
  translated that way, in place.
\<close>

text \<open>The \<open>switch\<close> of lines 126-149: the element size for an element kind, 0 for a kind
  that has no case.\<close>

definition typedarray_element_size :: "int \<Rightarrow> size_t" where
  "typedarray_element_size type_hack =
     (if type_hack = napi_int8_array \<or> type_hack = napi_uint8_array
         \<or> type_hack = napi_uint8_clamped_array then 1
      else if type_hack = napi_int16_array \<or> type_hack = napi_uint16_array then 2
      else if type_hack = napi_int32_array \<or> type_hack = napi_uint32_array
         \<or> type_hack = napi_float32_array then 4
      else if type_hack = napi_float64_array \<or> type_hack = 9 \<or> type_hack = 10 then 8
      else 0)"

text \<open>\<open>aws_byte_buf_init_from_napi\<close> (lines 69-158). \<open>buf\<close> is the caller's structure as
  it is on entry; the updated structure is returned with the status. The two
  \<open>AWS_ASSERT\<close>s are debug-build checks and are not part of the model.\<close>

definition aws_byte_buf_init_from_napi ::
  "aws_byte_buf \<Rightarrow> world \<Rightarrow> js_value \<Rightarrow> napi_status \<times> aws_byte_buf \<times> world" where
  "aws_byte_buf_init_from_napi buf w node_str =
     (case napi_typeof w node_str of (status, type) \<Rightarrow>
      if status \<noteq> napi_ok then (status, buf, w)
      else if type = napi_string then
        (case napi_get_value_string_utf8 w node_str None 0 of (status, length1, w1) \<Rightarrow>
         if status \<noteq> napi_ok then (status, buf, w1)
         else
           (case aws_napi_get_allocator w1 of (alloc, w2) \<Rightarrow>
            case aws_byte_buf_init buf alloc (length1 + 1) w2 of (rc, buf1, w3) \<Rightarrow>
            if rc \<noteq> 0 then (napi_generic_failure, buf1, w3)
            else
              (case napi_get_value_string_utf8 w3 node_str (buffer buf1) (capacity buf1) of
                 (status, copied, w4) \<Rightarrow>
                 if status \<noteq> napi_ok then (status, buf1, w4)
                 else (napi_ok, buf1\<lparr>len := copied\<rparr>, w4))))
      else if type = napi_object then
        (case napi_is_arraybuffer w node_str of (status, is_expected) \<Rightarrow>
         if status \<noteq> napi_ok then (status, buf, w)
         else if is_expected then
           (case napi_get_arraybuffer_info w node_str (buffer buf) (len buf) of
              (status, data, byte_length) \<Rightarrow>
              (status, buf\<lparr>buffer := data, len := byte_length, capacity := byte_length\<rparr>, w))
         else
           (case napi_is_dataview w node_str of (status, is_expected) \<Rightarrow>
            if status \<noteq> napi_ok then (status, buf, w)
            else if is_expected then
              (case napi_get_dataview_info w node_str (len buf) (buffer buf) of
                 (status, bytelength, data) \<Rightarrow>
                 (status, buf\<lparr>len := bytelength, buffer := data, capacity := bytelength\<rparr>, w))
            else
              (case napi_is_typedarray w node_str of (status, is_expected) \<Rightarrow>
               if status \<noteq> napi_ok then (status, buf, w)
               else if is_expected then
                 (case napi_get_typedarray_info w node_str napi_uint8_array 0 (buffer buf) of
                    (status, array_type, length1, data) \<Rightarrow>
                    if status \<noteq> napi_ok then (status, buf\<lparr>buffer := data\<rparr>, w)
                    else
                      (let element_size = typedarray_element_size array_type;
                           n_bytes = length1 * element_size
                       in (napi_ok, buf\<lparr>buffer := data, len := n_bytes, capacity := n_bytes\<rparr>, w)))
               else (napi_invalid_arg, buf, w))))
      else (napi_invalid_arg, buf, w))"

text \<open>\<open>aws_string_new_from_napi\<close> (lines 160-170). \<open>temp_buf\<close> is a local the function
  declares and does not initialise: on entry it holds \<open>stack_garbage\<close>. The result is the
  new string (\<open>None\<close> for \<open>NULL\<close>).\<close>

definition aws_string_new_from_napi :: "world \<Rightarrow> js_value \<Rightarrow> string option \<times> world" where
  "aws_string_new_from_napi w node_str =
     (let temp_buf = stack_garbage w in
      case aws_byte_buf_init_from_napi temp_buf w node_str of (status, temp_buf1, w1) \<Rightarrow>
      if status \<noteq> napi_ok then (None, w1)
      else
        (case aws_napi_get_allocator w1 of (alloc, w2) \<Rightarrow>
         case aws_string_new_from_array alloc (buffer temp_buf1) (len temp_buf1) w2 of
           (str, w3) \<Rightarrow>
         case aws_byte_buf_clean_up temp_buf1 w3 of (temp_buf2, w4) \<Rightarrow>
         (str, w4)))"

text \<open>\<open>aws_napi_create_dataview_from_byte_cursor\<close> (lines 172-190). The result is the
  value written to \<open>*result\<close> (\<open>None\<close>: not written).\<close>

definition aws_napi_create_dataview_from_byte_cursor ::
  "world \<Rightarrow> aws_byte_cursor \<Rightarrow> napi_status \<times> js_value option \<times> world" where
  "aws_napi_create_dataview_from_byte_cursor w cur =
     (case napi_create_arraybuffer w (cur_len cur) of (status, data, arraybuffer, w1) \<Rightarrow>
      if status \<noteq> napi_ok then (status, None, w1)
      else
        (let arraybuffer_buf = aws_byte_buf_from_empty_array data (cur_len cur);
             input = cur
         in case aws_byte_buf_write_from_whole_cursor arraybuffer_buf input w1 of
              (written, arraybuffer_buf1, w2) \<Rightarrow>
              if \<not> written then (napi_generic_failure, None, w2)
              else
                (case napi_create_dataview w2 (cur_len cur) arraybuffer 0 of
                   (status, result, w3) \<Rightarrow>
                   if status \<noteq> napi_ok then (status, None, w3)
                   else (napi_ok, Some result, w3))))"

section \<open>The host: exceptions, calls and threadsafe functions\<close>








text \<open>
  The calls that can run script refuse to start while an exception is pending
  (\<open>napi_pending_exception\<close>).

  \<open>napi_coerce_to_string\<close>: a string is itself, a function gives its source text, a symbol
  has no string form (ToString throws a \<open>TypeError\<close> for it), any other value has the
  text \<open>host_to_string\<close> has for it; where ToString throws the call fails.
\<close>

definition napi_coerce_to_string :: "world \<Rightarrow> js_value \<Rightarrow> napi_status \<times> js_value" where
  "napi_coerce_to_string w v =
     (if napi_oracle w N_coerce_to_string \<noteq> napi_ok
      then (napi_oracle w N_coerce_to_string, JS_undefined)
      else if pending_exception w \<noteq> None then (napi_pending_exception, JS_undefined)
      else
        (case v of
           JS_string s \<Rightarrow> (napi_ok, JS_string s)
         | JS_function src thrown \<Rightarrow> (napi_ok, JS_string src)
         | JS_symbol \<Rightarrow> (napi_string_expected, JS_undefined)
         | _ \<Rightarrow>
             (case host_to_string w v of
                None \<Rightarrow> (napi_string_expected, JS_undefined)
              | Some s \<Rightarrow> (napi_ok, JS_string s))))"



text \<open>
  Threadsafe functions. A handle is \<open>Some h\<close>, or \<open>None\<close> for \<open>NULL\<close>. Every call is
  recorded in the trace. The host checks the handle with a fatal assertion: a call on a
  \<open>NULL\<close> handle ends the process. \<open>napi_release_threadsafe_function\<close> reports
  \<open>napi_invalid_arg\<close> when the count is already 0, and takes one off otherwise.
\<close>

definition napi_acquire_threadsafe_function :: "world \<Rightarrow> nat option \<Rightarrow> napi_status outcome" where
  "napi_acquire_threadsafe_function w func =
     (let w1 = w\<lparr>trace := trace w @ [Tsfn_acquire func]\<rparr> in
      case func of
        None \<Rightarrow> Fatal w1
      | Some h \<Rightarrow>
          Returns napi_ok
            (w1\<lparr>tsfn_thread_count := (tsfn_thread_count w)(h := Suc (tsfn_thread_count w h))\<rparr>))"

definition napi_release_threadsafe_function :: "world \<Rightarrow> nat option \<Rightarrow> napi_status outcome" where
  "napi_release_threadsafe_function w func =
     (let w1 = w\<lparr>trace := trace w @ [Tsfn_release func]\<rparr> in
      case func of
        None \<Rightarrow> Fatal w1
      | Some h \<Rightarrow>
          if tsfn_thread_count w h = 0 then Returns napi_invalid_arg w1
          else Returns napi_ok
                 (w1\<lparr>tsfn_thread_count := (tsfn_thread_count w)(h := tsfn_thread_count w h - 1)\<rparr>))"

definition napi_unref_threadsafe_function :: "world \<Rightarrow> nat option \<Rightarrow> napi_status outcome" where
  "napi_unref_threadsafe_function w func =
     (let w1 = w\<lparr>trace := trace w @ [Tsfn_unref func]\<rparr> in
      case func of
        None \<Rightarrow> Fatal w1
      | Some h \<Rightarrow> Returns napi_ok w1)"

definition napi_call_threadsafe_function :: "world \<Rightarrow> nat option \<Rightarrow> nat \<Rightarrow> napi_status outcome" where
  "napi_call_threadsafe_function w func data =
     (let w1 = w\<lparr>trace := trace w @ [Tsfn_call func data]\<rparr> in
      case func of
        None \<Rightarrow> Fatal w1
      | Some h \<Rightarrow> Returns napi_ok w1)"

section \<open>Diagnostics and threadsafe dispatch\<close>



text \<open>
  Modelled from the spec: the macro \<open>AWS_NAPI_ENSURE(env, call)\<close> of
  \<^verbatim>\<open>module.h\<close>, which is not among the sources. The spec counts a failed creation of
  the process context, which module.c guards with this macro, among the fatal-assert
  conditions that terminate the process; module.c never reads a status back from the
  macro and goes on to use the call's results unchecked. So a status other than
  \<open>napi_ok\<close> ends the process, and \<open>napi_ok\<close> lets the code continue.
\<close>

definition AWS_NAPI_ENSURE :: "napi_status \<Rightarrow> world \<Rightarrow> 'a outcome \<Rightarrow> 'a outcome" where
  "AWS_NAPI_ENSURE status w continue = (if status \<noteq> napi_ok then Fatal w else continue)"




text \<open>The four wrappers of lines 413-440. \<open>aws_napi_queue_threadsafe_function\<close> passes
  \<open>napi_tsfn_nonblocking\<close>; the release mode of \<open>aws_napi_release_threadsafe_function\<close> is
  handed on unchanged and has no part in the model.\<close>

definition aws_napi_release_threadsafe_function :: "world \<Rightarrow> nat option \<Rightarrow> napi_status outcome" where
  "aws_napi_release_threadsafe_function w function =
     (if function \<noteq> None then napi_release_threadsafe_function w function
      else Returns napi_ok w)"

definition aws_napi_acquire_threadsafe_function :: "world \<Rightarrow> nat option \<Rightarrow> napi_status outcome" where
  "aws_napi_acquire_threadsafe_function w function =
     (if function \<noteq> None then napi_acquire_threadsafe_function w function
      else Returns napi_ok w)"

definition aws_napi_unref_threadsafe_function :: "world \<Rightarrow> nat option \<Rightarrow> napi_status outcome" where
  "aws_napi_unref_threadsafe_function w function =
     (if function \<noteq> None then napi_unref_threadsafe_function w function
      else Returns napi_ok w)"

definition aws_napi_queue_threadsafe_function :: "world \<Rightarrow> nat option \<Rightarrow> nat \<Rightarrow> napi_status outcome" where
  "aws_napi_queue_threadsafe_function w function user_data =
     (case napi_acquire_threadsafe_function w function of
        Fatal w_end \<Rightarrow> Fatal w_end
      | Returns st w1 \<Rightarrow>
          AWS_NAPI_ENSURE st w1 (napi_call_threadsafe_function w1 function user_data))"

section \<open>Process context lifecycle\<close>

text \<open>\<open>AWS_FATAL_ASSERT\<close> of aws-c-common: the process is aborted when the condition is
  false.\<close>

definition AWS_FATAL_ASSERT :: "bool \<Rightarrow> world \<Rightarrow> 'a outcome \<Rightarrow> 'a outcome" where
  "AWS_FATAL_ASSERT cond w continue = (if cond then continue else Fatal w)"

text \<open>A call into a library that is only recorded.\<close>

definition emit :: "event \<Rightarrow> world \<Rightarrow> world" where
  "emit e w = w\<lparr>trace := trace w @ [e]\<rparr>"

text \<open>The constructors \<open>aws_event_loop_group_new_default\<close>, \<open>aws_host_resolver_new_default\<close>
  and \<open>aws_client_bootstrap_new\<close>: a new object, named by a number, or \<open>NULL\<close>.\<close>

definition aws_new_object :: "world \<Rightarrow> nat option \<times> world" where
  "aws_new_object w =
     ((if new_object_oracle w (new_object_count w) then Some (new_object_count w) else None),
      w\<lparr>new_object_count := Suc (new_object_count w)\<rparr>)"

text \<open>Modelled from the spec: \<open>struct aws_napi_context\<close> of \<^verbatim>\<open>module.h\<close>, which is
  not among the sources. The spec's process context holds the allocator and the logger;
  module.c reads \<open>ctx->allocator\<close> and \<open>ctx->logger\<close>. The logger is an object of
  another file and has no content here.\<close>

record aws_napi_context =
  ctx_allocator :: aws_allocator

text \<open>\<open>s_napi_context_finalize\<close> (lines 520-544).\<close>

definition s_napi_context_finalize :: "world \<Rightarrow> aws_napi_context \<Rightarrow> world" where
  "s_napi_context_finalize w ctx =
     (let w1 = emit (Client_bootstrap_release (s_default_client_bootstrap w)) w;
          w2 = emit (Host_resolver_release (s_default_host_resolver w1)) w1;
          w3 = emit (Event_loop_group_release (s_node_uv_elg w2)) w2;
          w4 = emit Thread_join_all_managed w3;
          w5 = emit Unregister_log_subject_info_list w4;
          w6 = emit Unregister_error_info w5;
          w7 = emit Auth_library_clean_up w6;
          w8 = emit Mqtt_library_clean_up w7;
          w9 = emit Logger_destroy w8;
          w10 = emit (Context_release (ctx_allocator ctx)) w9
      in if ctx_allocator ctx \<noteq> Default_allocator
         then (let w11 = emit (Mem_tracer_destroy (ctx_allocator ctx)) w10
               in if s_allocator w11 = Some (ctx_allocator ctx)
                  then w11\<lparr>s_allocator := None\<rparr>
                  else w11)
         else w10)"

text \<open>\<open>napi_wrap\<close>, \<open>napi_get_null\<close>, \<open>napi_create_function\<close>, \<open>napi_set_named_property\<close>
  and the three binding functions of the other files, by their status only;
  \<open>napi_throw_error(env, NULL, msg)\<close> leaves an \<open>Error\<close> pending.\<close>

definition napi_status_of :: "world \<Rightarrow> napi_call \<Rightarrow> napi_status" where
  "napi_status_of w c = napi_oracle w c"

definition napi_throw_error :: "world \<Rightarrow> string \<Rightarrow> world" where
  "napi_throw_error w msg =
     w\<lparr>pending_exception := Some (JS_error (JS_string msg) JS_undefined)\<rparr>"

text \<open>\<open>s_napi_context_new\<close> (lines 546-557): the context is allocated with
  \<open>aws_mem_calloc\<close>, which takes part in the allocation oracle.\<close>

definition s_napi_context_new :: "world \<Rightarrow> aws_allocator \<Rightarrow> aws_napi_context outcome" where
  "s_napi_context_new w alloc =
     (let ctx_ok = alloc_oracle w (alloc_count w);
          w1 = w\<lparr>alloc_count := Suc (alloc_count w)\<rparr>
      in AWS_FATAL_ASSERT ctx_ok w1
          (AWS_NAPI_ENSURE (napi_status_of w1 N_wrap) w1
            (Returns \<lparr>ctx_allocator = alloc\<rparr> (emit (Context_new alloc) w1))))"

text \<open>\<open>s_create_and_register_function\<close> (lines 560-579).\<close>

definition s_create_and_register_function :: "world \<Rightarrow> string \<Rightarrow> bool \<times> world" where
  "s_create_and_register_function w fn_name =
     (if napi_status_of w N_create_function \<noteq> napi_ok
      then (False, napi_throw_error w ''Unable to wrap native function'')
      else if napi_status_of w N_set_named_property \<noteq> napi_ok
      then (False, napi_throw_error w ''Unable to populate exports'')
      else (True, emit (Register_function fn_name) w))"

text \<open>The uses of \<open>CREATE_AND_REGISTER_FN\<close> (lines 640-697), in order: registration stops
  at the first failure.\<close>

definition registered_functions :: "string list" where
  "registered_functions =
     [''native_memory'', ''native_memory_dump'', ''error_code_to_string'', ''error_code_to_name'',
      ''io_logging_enable'', ''is_alpn_available'', ''io_client_bootstrap_new'', ''io_tls_ctx_new'',
      ''io_tls_connection_options_new'', ''io_socket_options_new'', ''io_input_stream_new'',
      ''io_input_stream_append'',
      ''mqtt_client_new'',
      ''mqtt_client_connection_new'', ''mqtt_client_connection_connect'',
      ''mqtt_client_connection_reconnect'', ''mqtt_client_connection_publish'',
      ''mqtt_client_connection_subscribe'', ''mqtt_client_connection_on_message'',
      ''mqtt_client_connection_unsubscribe'', ''mqtt_client_connection_disconnect'',
      ''mqtt_client_connection_close'',
      ''hash_md5_new'', ''hash_sha1_new'', ''hash_sha256_new'', ''hash_update'', ''hash_digest'',
      ''hash_md5_compute'', ''hash_sha1_compute'', ''hash_sha256_compute'', ''hmac_sha256_new'',
      ''hmac_update'', ''hmac_digest'', ''hmac_sha256_compute'',
      ''checksums_crc32'', ''checksums_crc32c'',
      ''http_proxy_options_new'', ''http_connection_new'', ''http_connection_close'',
      ''http_stream_new'', ''http_stream_activate'', ''http_stream_close'',
      ''http_connection_manager_new'', ''http_connection_manager_close'',
      ''http_connection_manager_acquire'', ''http_connection_manager_release'']"

fun register_all :: "world \<Rightarrow> string list \<Rightarrow> bool \<times> world" where
  "register_all w [] = (True, w)"
| "register_all w (fn_name # rest) =
     (case s_create_and_register_function w fn_name of
        (False, w1) \<Rightarrow> (False, w1)
      | (True, w1) \<Rightarrow> register_all w1 rest)"

text \<open>\<open>NAPI_MODULE_INIT\<close> (lines 581-706). The result is the value handed back to the
  host: \<open>exports\<close>, or \<open>null\<close> when a registration failed (\<open>napi_get_null\<close>, whose
  status the source does not read, is taken to have produced \<open>null\<close>).\<close>

definition NAPI_MODULE_INIT :: "world \<Rightarrow> js_value \<Rightarrow> js_value outcome" where
  "NAPI_MODULE_INIT w exports =
     (let w1 = emit Install_crash_handler w in
      case aws_napi_get_allocator w1 of (alloc, w2) \<Rightarrow>
      case s_napi_context_new w2 alloc of
        Fatal w_end \<Rightarrow> Fatal w_end
      | Returns ctx w3 \<Rightarrow>
          (let w4 = emit Register_log_subject_info_list
                     (emit Register_error_info
                       (emit Auth_library_init
                         (emit Mqtt_library_init
                           (emit Http_library_init
                             (emit Cal_library_init w3)))))
           in
           AWS_FATAL_ASSERT (s_node_uv_elg w4 = None) w4
            (case aws_new_object w4 of (elg, w5) \<Rightarrow>
             let w6 = w5\<lparr>s_node_uv_elg := elg\<rparr> in
             AWS_FATAL_ASSERT (s_node_uv_elg w6 \<noteq> None) w6
              (AWS_FATAL_ASSERT (s_default_host_resolver w6 = None) w6
                (case aws_new_object w6 of (resolver, w7) \<Rightarrow>
                 let w8 = w7\<lparr>s_default_host_resolver := resolver\<rparr> in
                 AWS_FATAL_ASSERT (s_default_host_resolver w8 \<noteq> None) w8
                  (AWS_FATAL_ASSERT (s_default_client_bootstrap w8 = None) w8
                    (case aws_new_object w8 of (bootstrap, w9) \<Rightarrow>
                     let w10 = w9\<lparr>s_default_client_bootstrap := bootstrap\<rparr> in
                     AWS_FATAL_ASSERT (s_default_client_bootstrap w10 \<noteq> None) w10
                      (case register_all w10 registered_functions of
                         (False, w11) \<Rightarrow> Returns JS_null w11
                       | (True, w11) \<Rightarrow>
                           AWS_NAPI_ENSURE (napi_status_of w11 X_http_headers_bind) w11
                            (AWS_NAPI_ENSURE (napi_status_of w11 X_http_message_bind) w11
                              (AWS_NAPI_ENSURE (napi_status_of w11 X_auth_bind) w11
                                (Returns exports w11)))))))))))"

section \<open>The bytes of a buffer and of a host value\<close>

text \<open>\<open>aws_byte_cursor_from_buf\<close> of aws-c-common: the cursor over a buffer's bytes.\<close>

definition aws_byte_cursor_from_buf :: "aws_byte_buf \<Rightarrow> aws_byte_cursor" where
  "aws_byte_cursor_from_buf buf = \<lparr>cur_len = len buf, cur_ptr = buffer buf\<rparr>"

text \<open>The element sizes ECMAScript gives the eleven typed-array kinds N-API version 4
  names (Int8, Uint8, Uint8Clamped, Int16, Uint16, Int32, Uint32, Float32, Float64,
  BigInt64, BigUint64); \<open>None\<close> for a kind this model does not know.\<close>

definition js_element_size :: "int \<Rightarrow> nat option" where
  "js_element_size t =
     (if t \<in> {0, 1, 2} then Some 1
      else if t \<in> {3, 4} then Some 2
      else if t \<in> {5, 6, 7} then Some 4
      else if t \<in> {8, 9, 10} then Some 8
      else None)"

text \<open>The bytes a host value stands for: the encoding of a string, the backing store of
  an ArrayBuffer, the window of a DataView, the window of a typed array. \<open>None\<close> for the
  other values, which stand for no byte sequence.\<close>

definition js_bytes :: "world \<Rightarrow> js_value \<Rightarrow> string option" where
  "js_bytes w v =
     (case v of
        JS_string s \<Rightarrow> Some s
      | JS_arraybuffer b \<Rightarrow> Some (heap_read w (Some (Ptr b 0)) (block_size w b))
      | JS_dataview b off n \<Rightarrow> Some (heap_read w (Some (Ptr b off)) n)
      | JS_typedarray t b off n \<Rightarrow>
          (case js_element_size t of
             None \<Rightarrow> None
           | Some esize \<Rightarrow> Some (heap_read w (Some (Ptr b off)) (n * esize)))
      | _ \<Rightarrow> None)"

section \<open>A concrete world\<close>

text \<open>One host block of eight bytes, a host that answers every call as documented, an
  allocator that never fails, no tracing variable, nothing initialised yet.\<close>

definition demo_world :: world where
  "demo_world =
     \<lparr>heap = (\<lambda>b. if b = 0 then Some ''ABCDEFGH'' else None),
      next_block = 1,
      uninit_fill = CHR 0xAA,
      alloc_oracle = (\<lambda>n. True),
      alloc_count = 0,
      stack_garbage = \<lparr>len = 0, buffer = None, capacity = 0, allocator = None\<rparr>,
      napi_oracle = (\<lambda>c. napi_ok),
      host_to_string = (\<lambda>v. Some ''[object Object]''),
      newer_kinds = (\<lambda>t. False),
      pending_exception = None,
      last_error_info = \<lparr>error_message = None, engine_error_code = 0, error_code = napi_ok\<rparr>,
      tsfn_thread_count = (\<lambda>h. 1),
      log_out = [],
      stderr_out = [],
      trace = [],
      env_memory_tracing = None,
      env_lookup_fails = False,
      new_object_oracle = (\<lambda>n. True),
      new_object_count = 0,
      s_allocator = None,
      s_node_uv_elg = None,
      s_default_host_resolver = None,
      s_default_client_bootstrap = None\<rparr>"

definition zero_buf :: aws_byte_buf where
  "zero_buf = \<lparr>len = 0, buffer = None, capacity = 0, allocator = None\<rparr>"

text \<open>A further world: the tracing variable is set to \<open>v\<close>.\<close>

definition tracing_world :: "string \<Rightarrow> world" where
  "tracing_world v = demo_world\<lparr>env_memory_tracing := Some v\<rparr>"

text \<open>A world in which an event loop group is already there.\<close>

definition live_world :: world where
  "live_world = demo_world\<lparr>s_node_uv_elg := Some 0\<rparr>"

text \<open>A world in which an uninitialised \<open>aws_byte_buf\<close> local happens to hold a
  non-null allocator pointer.\<close>

definition garbage_world :: world where
  "garbage_world =
     demo_world\<lparr>stack_garbage :=
       \<lparr>len = 0, buffer = None, capacity = 0, allocator = Some Default_allocator\<rparr>\<rparr>"



text \<open>A host that has an enumerator for element kind 11 as well.\<close>

definition newer_host_world :: world where
  "newer_host_world = demo_world\<lparr>newer_kinds := (\<lambda>t. t = 11)\<rparr>"





section \<open>Notions used in the statements\<close>

text \<open>The host answers the four type queries of \<open>aws_byte_buf_init_from_napi\<close> (N-API
  documents no failure of them for a valid environment and value).\<close>

definition type_queries_ok :: "world \<Rightarrow> bool" where
  "type_queries_ok w =
     (napi_oracle w N_typeof = napi_ok \<and> napi_oracle w N_is_arraybuffer = napi_ok
      \<and> napi_oracle w N_is_dataview = napi_ok \<and> napi_oracle w N_is_typedarray = napi_ok)"

text \<open>The line \<open>aws_napi_get_allocator\<close> prints for a value it rejects.\<close>

definition invalid_level_warning :: "string \<Rightarrow> log_line" where
  "invalid_level_warning v =
     (''AWS_CRT_MEMORY_TRACING is set to invalid value: %s, must be 0 (none), 1 (bytes), or 2 (stacks)'',
      [Arg_str v])"

text \<open>A process context is live: one of the three shared objects is there.\<close>

definition context_live :: "world \<Rightarrow> bool" where
  "context_live w =
     (s_node_uv_elg w \<noteq> None \<or> s_default_host_resolver w \<noteq> None
      \<or> s_default_client_bootstrap w \<noteq> None)"

text \<open>The host answers every call as documented.\<close>

definition host_ok :: "world \<Rightarrow> bool" where
  "host_ok w = (\<forall>c. napi_oracle w c = napi_ok)"

text \<open>No block at or above \<open>next_block\<close> is in use, so a new block is new.\<close>

definition fresh_heap :: "world \<Rightarrow> bool" where
  "fresh_heap w = (\<forall>b. next_block w \<le> b \<longrightarrow> heap w b = None)"

text \<open>
  The values \<open>aws_byte_buf_init_from_napi\<close> is meant for, as a well-formed host holds
  them: a string, an ArrayBuffer over a live block, a DataView or a typed array of one of
  the eleven kinds whose window lies inside the block; every size below \<open>2 ^ 63\<close>, half
  the address space.
\<close>

definition marshalable :: "world \<Rightarrow> js_value \<Rightarrow> bool" where
  "marshalable w v =
     (case v of
        JS_string s \<Rightarrow> length s < 2 ^ 63
      | JS_arraybuffer b \<Rightarrow>
          (case heap w b of None \<Rightarrow> False | Some xs \<Rightarrow> length xs < 2 ^ 63)
      | JS_dataview b off n \<Rightarrow>
          (case heap w b of
             None \<Rightarrow> False
           | Some xs \<Rightarrow> off + n \<le> length xs \<and> length xs < 2 ^ 63)
      | JS_typedarray t b off n \<Rightarrow>
          (case js_element_size t of
             None \<Rightarrow> False
           | Some esize \<Rightarrow>
               (case heap w b of
                  None \<Rightarrow> False
                | Some xs \<Rightarrow> off + n * esize \<le> length xs \<and> length xs < 2 ^ 63))
      | _ \<Rightarrow> False)"

text \<open>Both conversions succeed on \<open>v\<close>, and the DataView that comes back stands for
  the bytes \<open>v\<close> stood for.\<close>

definition round_trip_ok :: "aws_byte_buf \<Rightarrow> world \<Rightarrow> js_value \<Rightarrow> bool" where
  "round_trip_ok buf w v =
     (case aws_byte_buf_init_from_napi buf w v of
        (st1, buf1, w1) \<Rightarrow>
          (case aws_napi_create_dataview_from_byte_cursor w1 (aws_byte_cursor_from_buf buf1) of
             (st2, res, w2) \<Rightarrow>
               st1 = napi_ok \<and> st2 = napi_ok
               \<and> (case res of
                     None \<Rightarrow> False
                   | Some r \<Rightarrow> js_is_dataview r \<and> js_bytes w2 r = js_bytes w v
                               \<and> js_bytes w v \<noteq> None)))"

text \<open>The element kind \<open>aws_byte_buf_init_from_napi\<close> has in \<open>array_type\<close> after
  \<open>napi_get_typedarray_info\<close>: the array's kind when the host has an enumerator for it,
  and otherwise the value the variable was initialised with (line 115).\<close>

definition reported_kind :: "world \<Rightarrow> int \<Rightarrow> int" where
  "reported_kind w t = (if host_has_enumerator w t then t else napi_uint8_array)"
















section \<open>Verified properties\<close>

lemmas marshal_defs =
  aws_byte_buf_init_from_napi_def napi_typeof_def napi_is_arraybuffer_def
  napi_is_dataview_def napi_is_typedarray_def type_queries_ok_def

lemmas atoi_defs = atoi_def strtol_def decimal_value_def is_space_def is_digit_def

subsection \<open>Arithmetic of \<open>size_t\<close>\<close>

lemma size_t_of_nat: "n < 2 ^ 64 \<Longrightarrow> unat (of_nat n :: size_t) = n"
  by (simp add: unat_of_nat)

lemma size_t_mult_of_nat:
  fixes k :: size_t
  assumes "n * unat k < 2 ^ 64"
  shows "unat (of_nat n * k) = n * unat k"
proof (cases "unat k = 0")
  case True
  then have "k = 0" by (simp add: unat_0_iff)
  then show ?thesis by simp
next
  case False
  then have "n \<le> n * unat k" by simp
  with assms have "n < 2 ^ 64" by linarith
  then have n: "unat (of_nat n :: size_t) = n" by (rule size_t_of_nat)
  have "unat (of_nat n :: size_t) * unat k < 2 ^ LENGTH(64)"
    using assms n by simp
  then have "unat (of_nat n * k) = unat (of_nat n :: size_t) * unat k"
    by (simp only: unat_mult_lem)
  with n show ?thesis by simp
qed

subsection \<open>Value marshaling: rejected and typed-array inputs\<close>

text \<open>
  Claim C7. A host value that is not a string, an ArrayBuffer, a DataView or a typed array
  makes \<open>aws_byte_buf_init_from_napi\<close> return \<open>napi_invalid_arg\<close>, and the caller's
  buffer structure and the world are left exactly as they were: no view is produced.
\<close>

theorem init_from_napi_rejects_other_kinds:
  assumes "type_queries_ok w"
    and "js_typeof v \<noteq> napi_string"
    and "\<not> js_is_arraybuffer v" and "\<not> js_is_dataview v" and "\<not> js_is_typedarray v"
  shows "aws_byte_buf_init_from_napi buf w v = (napi_invalid_arg, buf, w)"
  using assms by (simp add: marshal_defs)

theorem init_from_napi_rejects_other_kinds_witness:
  "aws_byte_buf_init_from_napi zero_buf demo_world (JS_number 5)
     = (napi_invalid_arg, zero_buf, demo_world)
   \<and> aws_byte_buf_init_from_napi zero_buf demo_world (JS_boolean True)
     = (napi_invalid_arg, zero_buf, demo_world)
   \<and> aws_byte_buf_init_from_napi zero_buf demo_world JS_null
     = (napi_invalid_arg, zero_buf, demo_world)
   \<and> aws_byte_buf_init_from_napi zero_buf demo_world JS_object
     = (napi_invalid_arg, zero_buf, demo_world)
   \<and> aws_byte_buf_init_from_napi zero_buf demo_world (JS_function ''f'' None)
     = (napi_invalid_arg, zero_buf, demo_world)"
  using init_from_napi_rejects_other_kinds [of demo_world "JS_number 5" zero_buf]
    init_from_napi_rejects_other_kinds [of demo_world "JS_boolean True" zero_buf]
    init_from_napi_rejects_other_kinds [of demo_world JS_null zero_buf]
    init_from_napi_rejects_other_kinds [of demo_world JS_object zero_buf]
    init_from_napi_rejects_other_kinds [of demo_world "JS_function ''f'' None" zero_buf]
  by (simp add: type_queries_ok_def demo_world_def)

text \<open>
  Claim C8. For a typed array of \<open>n\<close> elements of kind \<open>t\<close> at offset \<open>off\<close> of block
  \<open>b\<close>, the call succeeds without touching the world (nothing is allocated or copied), the
  buffer points at the array's first byte in its backing store, the allocator field is the
  caller's, the length is \<open>n\<close> times the element size of the kind the host reports (in
  \<open>size_t\<close> arithmetic, which is the product itself when that fits 64 bits), the capacity
  equals the length, the kind reported for each of the eleven kinds 0 to 10 is the kind
  itself, and the element sizes are 1, 2, 4 and 8 as listed.
\<close>

theorem typed_array_byte_length:
  assumes "type_queries_ok w" and "napi_oracle w N_get_typedarray_info = napi_ok"
  shows "(\<exists>buf'. aws_byte_buf_init_from_napi buf w (JS_typedarray t b off n) = (napi_ok, buf', w)
           \<and> buffer buf' = Some (Ptr b off)
           \<and> allocator buf' = allocator buf
           \<and> len buf' = of_nat n * typedarray_element_size (reported_kind w t)
           \<and> capacity buf' = len buf'
           \<and> (n * unat (typedarray_element_size (reported_kind w t)) < 2 ^ 64 \<longrightarrow>
                unat (len buf') = n * unat (typedarray_element_size (reported_kind w t))))
         \<and> (0 \<le> t \<and> t \<le> 10 \<longrightarrow> reported_kind w t = t)
         \<and> typedarray_element_size napi_int8_array = 1
         \<and> typedarray_element_size napi_uint8_array = 1
         \<and> typedarray_element_size napi_uint8_clamped_array = 1
         \<and> typedarray_element_size napi_int16_array = 2
         \<and> typedarray_element_size napi_uint16_array = 2
         \<and> typedarray_element_size napi_int32_array = 4
         \<and> typedarray_element_size napi_uint32_array = 4
         \<and> typedarray_element_size napi_float32_array = 4
         \<and> typedarray_element_size napi_float64_array = 8
         \<and> typedarray_element_size 9 = 8
         \<and> typedarray_element_size 10 = 8"
proof -
  let ?k = "reported_kind w t"
  let ?buf' = "buf\<lparr>buffer := Some (Ptr b off),
                   len := of_nat n * typedarray_element_size ?k,
                   capacity := of_nat n * typedarray_element_size ?k\<rparr>"
  have run: "aws_byte_buf_init_from_napi buf w (JS_typedarray t b off n) = (napi_ok, ?buf', w)"
    using assms
    by (simp add: marshal_defs napi_get_typedarray_info_def reported_kind_def Let_def)
  have fits: "unat (of_nat n * typedarray_element_size ?k) = n * unat (typedarray_element_size ?k)"
    if "n * unat (typedarray_element_size ?k) < 2 ^ 64"
    using that by (rule size_t_mult_of_nat)
  have same: "0 \<le> t \<and> t \<le> 10 \<longrightarrow> reported_kind w t = t"
    by (simp add: reported_kind_def host_has_enumerator_def)
  have sizes: "typedarray_element_size napi_int8_array = 1
         \<and> typedarray_element_size napi_uint8_array = 1
         \<and> typedarray_element_size napi_uint8_clamped_array = 1
         \<and> typedarray_element_size napi_int16_array = 2
         \<and> typedarray_element_size napi_uint16_array = 2
         \<and> typedarray_element_size napi_int32_array = 4
         \<and> typedarray_element_size napi_uint32_array = 4
         \<and> typedarray_element_size napi_float32_array = 4
         \<and> typedarray_element_size napi_float64_array = 8
         \<and> typedarray_element_size 9 = 8
         \<and> typedarray_element_size 10 = 8"
    by (simp add: typedarray_element_size_def)
  from run fits have
    "\<exists>buf'. aws_byte_buf_init_from_napi buf w (JS_typedarray t b off n) = (napi_ok, buf', w)
           \<and> buffer buf' = Some (Ptr b off)
           \<and> allocator buf' = allocator buf
           \<and> len buf' = of_nat n * typedarray_element_size ?k
           \<and> capacity buf' = len buf'
           \<and> (n * unat (typedarray_element_size ?k) < 2 ^ 64 \<longrightarrow>
                unat (len buf') = n * unat (typedarray_element_size ?k))"
    by auto
  with sizes same show ?thesis by blast
qed

theorem typed_array_byte_length_witness:
  "aws_byte_buf_init_from_napi zero_buf demo_world (JS_typedarray napi_uint16_array 0 2 3)
     = (napi_ok, \<lparr>len = 6, buffer = Some (Ptr 0 2), capacity = 6, allocator = None\<rparr>, demo_world)
   \<and> reported_kind demo_world napi_uint16_array = napi_uint16_array
   \<and> typedarray_element_size napi_uint16_array = 2"
  using typed_array_byte_length [of demo_world zero_buf napi_uint16_array 0 2 3]
  by (simp add: marshal_defs napi_get_typedarray_info_def Let_def typedarray_element_size_def
      host_has_enumerator_def reported_kind_def demo_world_def zero_buf_def)

text \<open>
  Claim C10, as amended. A typed array whose element kind is none of the eleven kinds
  with a case in the \<open>switch\<close> (kinds 0 to 10) is accepted with status \<open>napi_ok\<close>, and
  the buffer points at the array's storage. When the host has an enumerator for the kind
  and reports it, the element size stays 0 and the buffer has length 0 and capacity 0.
  When the host has no enumerator for the kind it leaves \<open>array_type\<close> at its initial
  value \<open>napi_uint8_array\<close>, the element size is 1, and length and capacity are the
  number of elements.
\<close>

theorem unhandled_typed_array_kind_buffer:
  assumes "type_queries_ok w" and "napi_oracle w N_get_typedarray_info = napi_ok"
    and "t < 0 \<or> 10 < t"
  shows "aws_byte_buf_init_from_napi buf w (JS_typedarray t b off n) =
           (napi_ok,
            buf\<lparr>buffer := Some (Ptr b off),
                len := (if newer_kinds w t then 0 else of_nat n),
                capacity := (if newer_kinds w t then 0 else of_nat n)\<rparr>, w)"
  using assms
  by (auto simp add: marshal_defs napi_get_typedarray_info_def Let_def typedarray_element_size_def
      host_has_enumerator_def)

theorem unhandled_typed_array_kind_buffer_witness:
  "aws_byte_buf_init_from_napi zero_buf newer_host_world (JS_typedarray 11 0 2 3) =
     (napi_ok, \<lparr>len = 0, buffer = Some (Ptr 0 2), capacity = 0, allocator = None\<rparr>,
      newer_host_world)
   \<and> aws_byte_buf_init_from_napi zero_buf demo_world (JS_typedarray 11 0 2 3) =
     (napi_ok, \<lparr>len = 3, buffer = Some (Ptr 0 2), capacity = 3, allocator = None\<rparr>, demo_world)"
  using unhandled_typed_array_kind_buffer [of newer_host_world 11 zero_buf 0 2 3]
    unhandled_typed_array_kind_buffer [of demo_world 11 zero_buf 0 2 3]
  by (simp add: type_queries_ok_def newer_host_world_def demo_world_def zero_buf_def)

text \<open>Claim C10 as stated fails on a host that has no enumerator for the kind: a typed
  array of kind 11 with 3 elements gives a buffer of length 3 and capacity 3, not 0.\<close>

theorem unhandled_kind_defaults_to_uint8_counterexample:
  "aws_byte_buf_init_from_napi zero_buf demo_world (JS_typedarray 11 0 2 3) =
     (napi_ok, \<lparr>len = 3, buffer = Some (Ptr 0 2), capacity = 3, allocator = None\<rparr>, demo_world)
   \<and> len (fst (snd (aws_byte_buf_init_from_napi zero_buf demo_world (JS_typedarray 11 0 2 3))))
       \<noteq> 0"
  by (simp add: marshal_defs napi_get_typedarray_info_def Let_def typedarray_element_size_def
      host_has_enumerator_def demo_world_def zero_buf_def)

subsection \<open>Threadsafe function wrappers on a null handle\<close>

text \<open>
  Claim C3, as amended. Given a null handle, \<open>aws_napi_acquire_threadsafe_function\<close>,
  \<open>aws_napi_release_threadsafe_function\<close> and \<open>aws_napi_unref_threadsafe_function\<close> return
  \<open>napi_ok\<close> and leave the world as it was. \<open>aws_napi_queue_threadsafe_function\<close> has no
  such check: it hands the null handle to the host's acquire call, where the process ends,
  so nothing is returned.
\<close>

theorem null_handle_wrappers:
  "aws_napi_acquire_threadsafe_function w None = Returns napi_ok w
   \<and> aws_napi_release_threadsafe_function w None = Returns napi_ok w
   \<and> aws_napi_unref_threadsafe_function w None = Returns napi_ok w
   \<and> aws_napi_queue_threadsafe_function w None user_data
       = Fatal (w\<lparr>trace := trace w @ [Tsfn_acquire None]\<rparr>)"
  by (simp add: aws_napi_acquire_threadsafe_function_def aws_napi_release_threadsafe_function_def
      aws_napi_unref_threadsafe_function_def aws_napi_queue_threadsafe_function_def
      napi_acquire_threadsafe_function_def)

text \<open>Claim C3 as stated fails for the queue operation: on a null handle it is not a
  no-op that returns success.\<close>

theorem queue_null_handle_counterexample:
  "aws_napi_queue_threadsafe_function demo_world None 7 \<noteq> Returns napi_ok demo_world
   \<and> aws_napi_queue_threadsafe_function demo_world None 7
       = Fatal (demo_world\<lparr>trace := [Tsfn_acquire None]\<rparr>)"
  by (simp add: aws_napi_queue_threadsafe_function_def napi_acquire_threadsafe_function_def
      demo_world_def)

subsection \<open>Allocator indirection\<close>

lemma atoi_is_int: "- 2147483648 \<le> atoi v \<and> atoi v \<le> 2147483647"
proof -
  have "- (2 ^ (LENGTH(32) - 1)) \<le> sint (word_of_int (strtol v) :: 32 word)"
    by (rule sint_ge)
  moreover have "sint (word_of_int (strtol v) :: 32 word) < 2 ^ (LENGTH(32) - 1)"
    by (rule sint_lt)
  ultimately show ?thesis by (simp add: atoi_def)
qed

lemma atoi_of_int_value:
  "- 2147483648 \<le> decimal_value v \<and> decimal_value v \<le> 2147483647 \<longrightarrow>
     atoi v = decimal_value v"
proof
  assume b: "- 2147483648 \<le> decimal_value v \<and> decimal_value v \<le> 2147483647"
  then have s: "strtol v = decimal_value v" by (simp add: strtol_def)
  have "signed_take_bit 31 (decimal_value v) = decimal_value v"
    using b by (intro signed_take_bit_int_eq_self) simp_all
  then have "sint (word_of_int (decimal_value v) :: 32 word) = decimal_value v"
    by (simp add: signed_of_int)
  with s show "atoi v = decimal_value v" by (simp add: atoi_def)
qed

text \<open>
  Claim C4, as amended. On first use (\<open>s_allocator\<close> is still \<open>NULL\<close>):
  when the variable is not set or its lookup fails, the default allocator itself is
  returned and cached; when it is set, the level is the \<open>int\<close> that \<open>atoi\<close> gives for
  it, which is the decimal value itself whenever that fits an \<open>int\<close>; when the level is
  outside 0..2, the warning is written to standard error and a tracer of level
  \<open>AWS_MEMTRACE_NONE\<close> around the default allocator is returned and cached; when the
  level is 0, 1 or 2, a tracer of that level around the default allocator is returned and
  cached, with 16 frames per stack, and nothing is written to standard error.
\<close>

theorem get_allocator_by_level:
  assumes "s_allocator w = None"
  shows "(env_lookup_fails w \<or> env_memory_tracing w = None \<longrightarrow>
            aws_napi_get_allocator w
              = (Default_allocator, w\<lparr>s_allocator := Some Default_allocator\<rparr>))
       \<and> (\<not> env_lookup_fails w \<and> env_memory_tracing w = Some v \<longrightarrow>
            (atoi v < 0 \<or> 2 < atoi v \<longrightarrow>
               aws_napi_get_allocator w =
                 (Mem_tracer Default_allocator AWS_MEMTRACE_NONE 16,
                  w\<lparr>stderr_out := stderr_out w @ [invalid_level_warning v],
                    s_allocator := Some (Mem_tracer Default_allocator AWS_MEMTRACE_NONE 16)\<rparr>))
          \<and> (0 \<le> atoi v \<and> atoi v \<le> 2 \<longrightarrow>
               aws_napi_get_allocator w =
                 (Mem_tracer Default_allocator (atoi v) 16,
                  w\<lparr>s_allocator := Some (Mem_tracer Default_allocator (atoi v) 16)\<rparr>)))
       \<and> - 2147483648 \<le> atoi v \<and> atoi v \<le> 2147483647
       \<and> (- 2147483648 \<le> decimal_value v \<and> decimal_value v \<le> 2147483647 \<longrightarrow>
            atoi v = decimal_value v)"
proof -
  have run: "(env_lookup_fails w \<or> env_memory_tracing w = None \<longrightarrow>
            aws_napi_get_allocator w
              = (Default_allocator, w\<lparr>s_allocator := Some Default_allocator\<rparr>))
       \<and> (\<not> env_lookup_fails w \<and> env_memory_tracing w = Some v \<longrightarrow>
            (atoi v < 0 \<or> 2 < atoi v \<longrightarrow>
               aws_napi_get_allocator w =
                 (Mem_tracer Default_allocator AWS_MEMTRACE_NONE 16,
                  w\<lparr>stderr_out := stderr_out w @ [invalid_level_warning v],
                    s_allocator := Some (Mem_tracer Default_allocator AWS_MEMTRACE_NONE 16)\<rparr>))
          \<and> (0 \<le> atoi v \<and> atoi v \<le> 2 \<longrightarrow>
               aws_napi_get_allocator w =
                 (Mem_tracer Default_allocator (atoi v) 16,
                  w\<lparr>s_allocator := Some (Mem_tracer Default_allocator (atoi v) 16)\<rparr>)))"
    using assms
    by (auto simp add: aws_napi_get_allocator_def aws_get_environment_value_def
        aws_mem_tracer_new_def Let_def invalid_level_warning_def split: option.splits)
  from atoi_is_int [of v] atoi_of_int_value [of v] run show ?thesis by blast
qed

theorem get_allocator_by_level_witness:
  "s_allocator (tracing_world ''7'') = None
   \<and> fst (aws_napi_get_allocator (tracing_world ''7''))
       = Mem_tracer Default_allocator AWS_MEMTRACE_NONE 16
   \<and> stderr_out (snd (aws_napi_get_allocator (tracing_world ''7''))) = [invalid_level_warning ''7'']
   \<and> fst (aws_napi_get_allocator (tracing_world ''1''))
       = Mem_tracer Default_allocator AWS_MEMTRACE_BYTES 16
   \<and> fst (aws_napi_get_allocator (tracing_world ''2''))
       = Mem_tracer Default_allocator AWS_MEMTRACE_STACKS 16
   \<and> fst (aws_napi_get_allocator demo_world) = Default_allocator
   \<and> atoi ''4294967297'' = 1
   \<and> aws_napi_get_allocator (tracing_world ''4294967297'')
       = (Mem_tracer Default_allocator AWS_MEMTRACE_BYTES 16,
          (tracing_world ''4294967297'')
            \<lparr>s_allocator := Some (Mem_tracer Default_allocator AWS_MEMTRACE_BYTES 16)\<rparr>)"
  using get_allocator_by_level [of "tracing_world ''7''" "''7''"]
    get_allocator_by_level [of "tracing_world ''1''" "''1''"]
    get_allocator_by_level [of "tracing_world ''2''" "''2''"]
    get_allocator_by_level [of demo_world "[]"]
    get_allocator_by_level [of "tracing_world ''4294967297''" "''4294967297''"]
  by (simp add: tracing_world_def demo_world_def atoi_defs)

text \<open>Claim C4 as stated fails: for the value 0, and for a value out of range, the
  allocator returned is a tracer around the default allocator, not the default allocator
  itself.\<close>

theorem level_zero_is_a_tracer_counterexample:
  "fst (aws_napi_get_allocator (tracing_world ''0''))
     = Mem_tracer Default_allocator AWS_MEMTRACE_NONE 16
   \<and> fst (aws_napi_get_allocator (tracing_world ''0'')) \<noteq> Default_allocator
   \<and> fst (aws_napi_get_allocator (tracing_world ''7'')) \<noteq> Default_allocator"
  by (simp add: aws_napi_get_allocator_def tracing_world_def demo_world_def
      aws_get_environment_value_def aws_mem_tracer_new_def atoi_defs Let_def)

subsection \<open>Process context lifecycle\<close>

lemma get_allocator_keeps_statics:
  "s_node_uv_elg (snd (aws_napi_get_allocator w)) = s_node_uv_elg w"
  "s_default_host_resolver (snd (aws_napi_get_allocator w)) = s_default_host_resolver w"
  "s_default_client_bootstrap (snd (aws_napi_get_allocator w)) = s_default_client_bootstrap w"
  by (auto simp add: aws_napi_get_allocator_def Let_def split: option.splits prod.splits)

lemma context_new_keeps_statics:
  "s_napi_context_new w a = Returns ctx w' \<Longrightarrow>
     s_node_uv_elg w' = s_node_uv_elg w
     \<and> s_default_host_resolver w' = s_default_host_resolver w
     \<and> s_default_client_bootstrap w' = s_default_client_bootstrap w"
  by (auto simp add: s_napi_context_new_def Let_def AWS_FATAL_ASSERT_def AWS_NAPI_ENSURE_def
      emit_def split: if_splits)

lemma module_init_fatal_when_live:
  assumes "context_live w"
  shows "\<exists>w'. NAPI_MODULE_INIT w exports = Fatal w'"
proof (cases "aws_napi_get_allocator (emit Install_crash_handler w)")
  case (Pair alloc w2)
  have live2: "context_live w2"
    using assms get_allocator_keeps_statics [of "emit Install_crash_handler w"] Pair
    by (simp add: context_live_def emit_def)
  show ?thesis
  proof (cases "s_napi_context_new w2 alloc")
    case (Fatal w_end)
    then show ?thesis using Pair by (simp add: NAPI_MODULE_INIT_def Let_def)
  next
    case (Returns ctx w3)
    from context_new_keeps_statics [OF Returns] live2 have "context_live w3"
      by (simp add: context_live_def)
    then show ?thesis using Pair Returns
      by (auto simp add: NAPI_MODULE_INIT_def Let_def AWS_FATAL_ASSERT_def emit_def
          aws_new_object_def context_live_def split: prod.splits)
  qed
qed

lemma finalize_trace:
  "trace (s_napi_context_finalize w ctx) =
     trace w @ [Client_bootstrap_release (s_default_client_bootstrap w),
                Host_resolver_release (s_default_host_resolver w),
                Event_loop_group_release (s_node_uv_elg w),
                Thread_join_all_managed,
                Unregister_log_subject_info_list, Unregister_error_info,
                Auth_library_clean_up, Mqtt_library_clean_up, Logger_destroy,
                Context_release (ctx_allocator ctx)]
       @ (if ctx_allocator ctx \<noteq> Default_allocator
          then [Mem_tracer_destroy (ctx_allocator ctx)] else [])"
  by (simp add: s_napi_context_finalize_def Let_def emit_def)

text \<open>
  Claim C5. When module initialisation starts while an event loop group, a host resolver
  or a client bootstrap is already there, it ends in a fatal assertion. The finalizer
  adds to the trace, in this order and first of all, the release of the client bootstrap,
  of the host resolver and of the event loop group, then the join of all managed threads,
  and none of these four calls again afterwards.
\<close>

theorem context_init_and_teardown_order:
  "(context_live w \<longrightarrow> (\<exists>w'. NAPI_MODULE_INIT w exports = Fatal w'))
   \<and> (\<exists>rest. trace (s_napi_context_finalize w ctx) =
         trace w @ [Client_bootstrap_release (s_default_client_bootstrap w),
                    Host_resolver_release (s_default_host_resolver w),
                    Event_loop_group_release (s_node_uv_elg w),
                    Thread_join_all_managed] @ rest
       \<and> Thread_join_all_managed \<notin> set rest
       \<and> Client_bootstrap_release (s_default_client_bootstrap w) \<notin> set rest
       \<and> Host_resolver_release (s_default_host_resolver w) \<notin> set rest
       \<and> Event_loop_group_release (s_node_uv_elg w) \<notin> set rest)"
proof -
  let ?rest = "[Unregister_log_subject_info_list, Unregister_error_info,
                Auth_library_clean_up, Mqtt_library_clean_up, Logger_destroy,
                Context_release (ctx_allocator ctx)]
       @ (if ctx_allocator ctx \<noteq> Default_allocator
          then [Mem_tracer_destroy (ctx_allocator ctx)] else [])"
  have "trace (s_napi_context_finalize w ctx) =
         trace w @ [Client_bootstrap_release (s_default_client_bootstrap w),
                    Host_resolver_release (s_default_host_resolver w),
                    Event_loop_group_release (s_node_uv_elg w),
                    Thread_join_all_managed] @ ?rest"
    by (simp add: finalize_trace)
  moreover have "Thread_join_all_managed \<notin> set ?rest
       \<and> Client_bootstrap_release (s_default_client_bootstrap w) \<notin> set ?rest
       \<and> Host_resolver_release (s_default_host_resolver w) \<notin> set ?rest
       \<and> Event_loop_group_release (s_node_uv_elg w) \<notin> set ?rest"
    by simp
  ultimately have "\<exists>rest. trace (s_napi_context_finalize w ctx) =
         trace w @ [Client_bootstrap_release (s_default_client_bootstrap w),
                    Host_resolver_release (s_default_host_resolver w),
                    Event_loop_group_release (s_node_uv_elg w),
                    Thread_join_all_managed] @ rest
       \<and> Thread_join_all_managed \<notin> set rest
       \<and> Client_bootstrap_release (s_default_client_bootstrap w) \<notin> set rest
       \<and> Host_resolver_release (s_default_host_resolver w) \<notin> set rest
       \<and> Event_loop_group_release (s_node_uv_elg w) \<notin> set rest"
    by blast
  then show ?thesis
    using module_init_fatal_when_live [of w exports] by blast
qed

theorem context_init_and_teardown_order_witness:
  "context_live live_world
   \<and> (\<exists>w'. NAPI_MODULE_INIT live_world JS_object = Fatal w')
   \<and> trace (s_napi_context_finalize live_world \<lparr>ctx_allocator = Default_allocator\<rparr>)
       = [Client_bootstrap_release None, Host_resolver_release None,
          Event_loop_group_release (Some 0), Thread_join_all_managed,
          Unregister_log_subject_info_list, Unregister_error_info,
          Auth_library_clean_up, Mqtt_library_clean_up, Logger_destroy,
          Context_release Default_allocator]"
proof -
  have live: "context_live live_world"
    by (simp add: context_live_def live_world_def)
  have tr: "trace (s_napi_context_finalize live_world \<lparr>ctx_allocator = Default_allocator\<rparr>)
       = [Client_bootstrap_release None, Host_resolver_release None,
          Event_loop_group_release (Some 0), Thread_join_all_managed,
          Unregister_log_subject_info_list, Unregister_error_info,
          Auth_library_clean_up, Mqtt_library_clean_up, Logger_destroy,
          Context_release Default_allocator]"
    by (simp add: finalize_trace live_world_def demo_world_def)
  from live context_init_and_teardown_order [of live_world JS_object]
  have "\<exists>w'. NAPI_MODULE_INIT live_world JS_object = Fatal w'" by blast
  with live tr show ?thesis by blast
qed

text \<open>For comparison: in a world where nothing is live yet and the host and the
  allocators do not fail, initialisation runs to its end and hands back \<open>exports\<close>.\<close>

lemma module_init_fresh_world:
  "\<exists>w'. NAPI_MODULE_INIT demo_world JS_object = Returns JS_object w'"
  by (simp add: NAPI_MODULE_INIT_def Let_def AWS_FATAL_ASSERT_def AWS_NAPI_ENSURE_def emit_def
      aws_new_object_def aws_napi_get_allocator_def aws_get_environment_value_def
      s_napi_context_new_def napi_status_of_def registered_functions_def
      s_create_and_register_function_def demo_world_def)

subsection \<open>Value marshaling: the round trip\<close>

lemma get_allocator_shape:
  "\<exists>a e. aws_napi_get_allocator w = (a, w\<lparr>stderr_out := e, s_allocator := Some a\<rparr>)"
proof (cases "s_allocator w")
  case None
  then show ?thesis
    by (auto simp add: aws_napi_get_allocator_def aws_get_environment_value_def Let_def
        split: option.splits intro: exI [of _ "stderr_out w"])
next
  case (Some a)
  then have "w\<lparr>stderr_out := stderr_out w, s_allocator := Some a\<rparr> = w" by simp
  then have "aws_napi_get_allocator w = (a, w\<lparr>stderr_out := stderr_out w, s_allocator := Some a\<rparr>)"
    using Some by (simp add: aws_napi_get_allocator_def)
  then show ?thesis by blast
qed

lemma len_plus_one: "length s < 2 ^ 63 \<Longrightarrow> unat ((of_nat (length s) :: size_t) + 1) = Suc (length s)"
proof -
  assume a: "length s < 2 ^ 63"
  then have "Suc (length s) < 2 ^ 64" by simp
  then have "unat (of_nat (Suc (length s)) :: size_t) = Suc (length s)" by (rule size_t_of_nat)
  then show ?thesis by (simp add: add.commute)
qed

lemma len_plus_one_nz: "length s < 2 ^ 63 \<Longrightarrow> (of_nat (length s) :: size_t) + 1 \<noteq> 0"
  using len_plus_one [of s] by (metis Zero_not_Suc unat_0_iff)

lemma string_path:
  assumes ty: "napi_oracle w N_typeof = napi_ok"
    and gs: "napi_oracle w N_get_value_string_utf8 = napi_ok"
    and al: "alloc_oracle w (alloc_count w)"
    and sh: "length s < 2 ^ 63"
    and ga: "aws_napi_get_allocator w = (a, w2)"
  shows "aws_byte_buf_init_from_napi buf w (JS_string s) =
           (napi_ok,
            \<lparr>len = of_nat (length s), buffer = Some (Ptr (next_block w) 0),
              capacity = of_nat (length s) + 1, allocator = Some a\<rparr>,
            w2\<lparr>heap := (heap w)(next_block w := Some (s @ [CHR 0x00])),
              next_block := Suc (next_block w),
              alloc_count := Suc (alloc_count w)\<rparr>)"
proof -
  obtain e where w2: "w2 = w\<lparr>stderr_out := e, s_allocator := Some a\<rparr>"
    using get_allocator_shape [of w] ga by auto
  show ?thesis
    using ty gs al sh ga len_plus_one [OF sh] len_plus_one_nz [OF sh]
    by (simp add: aws_byte_buf_init_from_napi_def napi_typeof_def napi_get_value_string_utf8_def
        aws_byte_buf_init_def aws_mem_acquire_def heap_write_def w2)
qed

lemma half_le: "n < 2 ^ 63 \<Longrightarrow> \<not> (of_nat n :: size_t) > SIZE_MAX_HALF"
proof -
  assume a: "n < 2 ^ 63"
  then have "unat (of_nat n :: size_t) = n" by (simp add: size_t_of_nat)
  then have "unat (of_nat n :: size_t) \<le> unat SIZE_MAX_HALF" using a by simp
  then have "(of_nat n :: size_t) \<le> SIZE_MAX_HALF" by (simp only: word_le_nat_alt)
  then show ?thesis by (simp add: not_less)
qed

lemma create_dataview_copies:
  fixes n :: nat
  assumes ok1: "napi_oracle w N_create_arraybuffer = napi_ok"
    and ok2: "napi_oracle w N_create_dataview = napi_ok"
    and n: "n < 2 ^ 63"
    and src: "length (heap_read w p n) = n"
    and fr: "heap w (next_block w) = None"
  shows "aws_napi_create_dataview_from_byte_cursor w \<lparr>cur_len = of_nat n, cur_ptr = p\<rparr> =
           (napi_ok, Some (JS_dataview (next_block w) 0 n),
            w\<lparr>heap := (heap w)(next_block w := Some (heap_read w p n)),
              next_block := Suc (next_block w)\<rparr>)"
proof (cases "n = 0")
  case True
  then show ?thesis
    using ok1 ok2
    by (simp add: aws_napi_create_dataview_from_byte_cursor_def napi_create_arraybuffer_def
        aws_byte_buf_from_empty_array_def aws_byte_buf_write_from_whole_cursor_def
        napi_create_dataview_def block_size_def heap_read_def split: option.splits)
next
  case False
  have un: "unat (of_nat n :: size_t) = n" using n by (simp add: size_t_of_nat)
  have nz: "(of_nat n :: size_t) \<noteq> 0" using False un by (metis unat_0_iff)
  have rd: "heap_read (w\<lparr>heap := (heap w)(next_block w := Some (replicate n (CHR 0x00))),
                          next_block := Suc (next_block w)\<rparr>) p n = heap_read w p n"
    using src fr False
    by (auto simp add: heap_read_def split: option.splits)
  show ?thesis
    using ok1 ok2 un nz half_le [OF n] src
    by (simp add: aws_napi_create_dataview_from_byte_cursor_def napi_create_arraybuffer_def
        aws_byte_buf_from_empty_array_def aws_byte_buf_write_from_whole_cursor_def
        napi_create_dataview_def block_size_def ptr_add_def heap_write_def rd)
qed


lemma arraybuffer_path:
  assumes "host_ok w"
  shows "aws_byte_buf_init_from_napi buf w (JS_arraybuffer b) =
           (napi_ok,
            buf\<lparr>buffer := Some (Ptr b 0), len := of_nat (block_size w b),
                capacity := of_nat (block_size w b)\<rparr>, w)"
  using assms
  by (simp add: host_ok_def aws_byte_buf_init_from_napi_def napi_typeof_def
      napi_is_arraybuffer_def napi_get_arraybuffer_info_def)

lemma dataview_path:
  assumes "host_ok w"
  shows "aws_byte_buf_init_from_napi buf w (JS_dataview b off n) =
           (napi_ok,
            buf\<lparr>len := of_nat n, buffer := Some (Ptr b off), capacity := of_nat n\<rparr>, w)"
  using assms
  by (simp add: host_ok_def aws_byte_buf_init_from_napi_def napi_typeof_def
      napi_is_arraybuffer_def napi_is_dataview_def napi_get_dataview_info_def)

lemma typedarray_path:
  assumes "host_ok w"
  shows "aws_byte_buf_init_from_napi buf w (JS_typedarray t b off n) =
           (napi_ok,
            buf\<lparr>buffer := Some (Ptr b off),
                len := of_nat n * typedarray_element_size (reported_kind w t),
                capacity := of_nat n * typedarray_element_size (reported_kind w t)\<rparr>, w)"
  using assms
  by (simp add: host_ok_def aws_byte_buf_init_from_napi_def napi_typeof_def
      napi_is_arraybuffer_def napi_is_dataview_def napi_is_typedarray_def
      napi_get_typedarray_info_def reported_kind_def Let_def)

lemma element_size_agrees:
  "js_element_size t = Some e \<Longrightarrow>
     typedarray_element_size (reported_kind w t) = of_nat e \<and> e \<le> 8"
  by (auto simp add: js_element_size_def typedarray_element_size_def reported_kind_def
      host_has_enumerator_def split: if_splits)

lemma round_trip_string:
  assumes h: "host_ok w" and al: "alloc_oracle w (alloc_count w)" and fr: "fresh_heap w"
    and sh: "length s < 2 ^ 63"
  shows "round_trip_ok buf w (JS_string s)"
proof -
  obtain a e where ga: "aws_napi_get_allocator w = (a, w\<lparr>stderr_out := e, s_allocator := Some a\<rparr>)"
    using get_allocator_shape [of w] by blast
  let ?w1 = "w\<lparr>stderr_out := e, s_allocator := Some a,
               heap := (heap w)(next_block w := Some (s @ [CHR 0x00])),
               next_block := Suc (next_block w), alloc_count := Suc (alloc_count w)\<rparr>"
  have init: "aws_byte_buf_init_from_napi buf w (JS_string s) =
           (napi_ok,
            \<lparr>len = of_nat (length s), buffer = Some (Ptr (next_block w) 0),
              capacity = of_nat (length s) + 1, allocator = Some a\<rparr>, ?w1)"
    using string_path [OF _ _ al sh ga, of buf] h by (simp add: host_ok_def)
  have rd: "heap_read ?w1 (Some (Ptr (next_block w) 0)) (length s) = s"
    by (simp add: heap_read_def)
  have fr1: "heap ?w1 (next_block ?w1) = None"
    using fr by (simp add: fresh_heap_def)
  have cd: "aws_napi_create_dataview_from_byte_cursor ?w1
              \<lparr>cur_len = of_nat (length s), cur_ptr = Some (Ptr (next_block w) 0)\<rparr> =
           (napi_ok, Some (JS_dataview (next_block ?w1) 0 (length s)),
            ?w1\<lparr>heap := (heap ?w1)(next_block ?w1 :=
                     Some (heap_read ?w1 (Some (Ptr (next_block w) 0)) (length s))),
                next_block := Suc (next_block ?w1)\<rparr>)"
    using h sh fr1 rd
    by (intro create_dataview_copies) (simp_all add: host_ok_def)
  show ?thesis
    unfolding round_trip_ok_def init
    by (simp add: aws_byte_cursor_from_buf_def cd rd js_bytes_def heap_read_def)
qed


lemma round_trip_borrowed:
  assumes h: "host_ok w" and fr: "fresh_heap w"
    and init: "aws_byte_buf_init_from_napi buf w v = (napi_ok, buf1, w)"
    and bp: "buffer buf1 = Some (Ptr b off)" and bl: "len buf1 = of_nat k"
    and blk: "heap w b = Some xs" and fit: "off + k \<le> length xs" and k: "k < 2 ^ 63"
    and bytes: "js_bytes w v = Some (heap_read w (Some (Ptr b off)) k)"
  shows "round_trip_ok buf w v"
proof -
  have rdlen: "length (heap_read w (Some (Ptr b off)) k) = k"
    using blk fit by (simp add: heap_read_def)
  have fr1: "heap w (next_block w) = None"
    using fr by (simp add: fresh_heap_def)
  have cd: "aws_napi_create_dataview_from_byte_cursor w
              \<lparr>cur_len = of_nat k, cur_ptr = Some (Ptr b off)\<rparr> =
           (napi_ok, Some (JS_dataview (next_block w) 0 k),
            w\<lparr>heap := (heap w)(next_block w := Some (heap_read w (Some (Ptr b off)) k)),
              next_block := Suc (next_block w)\<rparr>)"
    using h k fr1 rdlen
    by (intro create_dataview_copies) (simp_all add: host_ok_def)
  have rback: "js_bytes (w\<lparr>heap := (heap w)(next_block w := Some (heap_read w (Some (Ptr b off)) k)),
              next_block := Suc (next_block w)\<rparr>) (JS_dataview (next_block w) 0 k)
            = Some (heap_read w (Some (Ptr b off)) k)"
    using rdlen by (simp add: js_bytes_def heap_read_def)
  show ?thesis
    unfolding round_trip_ok_def init
    by (simp add: aws_byte_cursor_from_buf_def bp bl cd rback bytes)
qed

lemma round_trip_supported:
  assumes h: "host_ok w" and al: "alloc_oracle w (alloc_count w)" and fr: "fresh_heap w"
    and m: "marshalable w v"
  shows "round_trip_ok buf w v"
proof (cases v)
  case (JS_string s)
  then show ?thesis using round_trip_string [OF h al fr] m by (simp add: marshalable_def)
next
  case (JS_arraybuffer b)
  then obtain xs where blk: "heap w b = Some xs" and sz: "length xs < 2 ^ 63"
    using m by (auto simp add: marshalable_def split: option.splits)
  have bs: "block_size w b = length xs" using blk by (simp add: block_size_def)
  show ?thesis
    unfolding JS_arraybuffer
    by (rule round_trip_borrowed [OF h fr arraybuffer_path [OF h], where k = "length xs" and xs = xs])
       (use bs blk sz in \<open>simp_all add: js_bytes_def\<close>)
next
  case (JS_dataview b off n)
  then obtain xs where blk: "heap w b = Some xs" and fit: "off + n \<le> length xs"
      and sz: "length xs < 2 ^ 63"
    using m by (auto simp add: marshalable_def split: option.splits)
  have n: "n < 2 ^ 63" using fit sz by linarith
  show ?thesis
    unfolding JS_dataview
    by (rule round_trip_borrowed [OF h fr dataview_path [OF h], where k = n and xs = xs])
       (use blk fit n in \<open>simp_all add: js_bytes_def\<close>)
next
  case (JS_typedarray t b off n)
  then obtain e xs where es: "js_element_size t = Some e" and blk: "heap w b = Some xs"
      and fit: "off + n * e \<le> length xs" and sz: "length xs < 2 ^ 63"
    using m by (auto simp add: marshalable_def split: option.splits)
  have k: "n * e < 2 ^ 63" using fit sz by linarith
  have tes: "typedarray_element_size (reported_kind w t) = of_nat e"
    using element_size_agrees [OF es] by simp
  show ?thesis
    unfolding JS_typedarray
    by (rule round_trip_borrowed [OF h fr typedarray_path [OF h], where k = "n * e" and xs = xs])
       (use blk fit k es tes in \<open>simp_all add: js_bytes_def\<close>)
qed (use m in \<open>simp_all add: marshalable_def\<close>)

text \<open>
  Claim C1. For a string, an ArrayBuffer, a DataView or a typed array of a handled kind,
  with a host that answers as documented and an allocation that succeeds,
  \<open>aws_byte_buf_init_from_napi\<close> succeeds, \<open>aws_napi_create_dataview_from_byte_cursor\<close> on
  the bytes of the buffer succeeds, and the DataView it makes holds exactly the bytes of
  the original value. For a string the recorded length is the length of the encoding, the
  capacity is one byte more, and the buffer holds the encoding followed by one 0 byte.
  For the other kinds the capacity equals the length.
\<close>

theorem marshal_round_trip:
  assumes h: "host_ok w" and al: "alloc_oracle w (alloc_count w)" and fr: "fresh_heap w"
    and m: "marshalable w v"
  shows "\<exists>buf1 w1 r w2.
           aws_byte_buf_init_from_napi buf w v = (napi_ok, buf1, w1)
           \<and> aws_napi_create_dataview_from_byte_cursor w1 (aws_byte_cursor_from_buf buf1)
               = (napi_ok, Some r, w2)
           \<and> js_is_dataview r
           \<and> js_bytes w2 r = js_bytes w v
           \<and> js_bytes w v \<noteq> None
           \<and> (\<forall>s. v = JS_string s \<longrightarrow>
                 unat (len buf1) = length s
                 \<and> capacity buf1 = len buf1 + 1
                 \<and> heap_read w1 (buffer buf1) (unat (capacity buf1)) = s @ [CHR 0x00])
           \<and> (js_typeof v \<noteq> napi_string \<longrightarrow> capacity buf1 = len buf1)"
proof -
  obtain st1 buf1 w1 where i: "aws_byte_buf_init_from_napi buf w v = (st1, buf1, w1)"
    by (cases "aws_byte_buf_init_from_napi buf w v") auto
  obtain st2 res w2 where
    c: "aws_napi_create_dataview_from_byte_cursor w1 (aws_byte_cursor_from_buf buf1) = (st2, res, w2)"
    by (cases "aws_napi_create_dataview_from_byte_cursor w1 (aws_byte_cursor_from_buf buf1)") auto
  from round_trip_supported [OF h al fr m, of buf] i c
  obtain r where st: "st1 = napi_ok" "st2 = napi_ok" and r: "res = Some r"
    and rt: "js_is_dataview r" "js_bytes w2 r = js_bytes w v" "js_bytes w v \<noteq> None"
    by (auto simp add: round_trip_ok_def split: option.splits)
  have str: "unat (len buf1) = length s \<and> capacity buf1 = len buf1 + 1
             \<and> heap_read w1 (buffer buf1) (unat (capacity buf1)) = s @ [CHR 0x00]"
    if v: "v = JS_string s" for s
  proof -
    have sh: "length s < 2 ^ 63" using m v by (simp add: marshalable_def)
    obtain a e where
      ga: "aws_napi_get_allocator w = (a, w\<lparr>stderr_out := e, s_allocator := Some a\<rparr>)"
      using get_allocator_shape [of w] by blast
    have "aws_byte_buf_init_from_napi buf w (JS_string s) =
           (napi_ok,
            \<lparr>len = of_nat (length s), buffer = Some (Ptr (next_block w) 0),
              capacity = of_nat (length s) + 1, allocator = Some a\<rparr>,
            w\<lparr>stderr_out := e, s_allocator := Some a,
              heap := (heap w)(next_block w := Some (s @ [CHR 0x00])),
              next_block := Suc (next_block w),
              alloc_count := Suc (alloc_count w)\<rparr>)"
      using string_path [OF _ _ al sh ga, of buf] h by (simp add: host_ok_def)
    with i v have b: "buf1 = \<lparr>len = of_nat (length s), buffer = Some (Ptr (next_block w) 0),
              capacity = of_nat (length s) + 1, allocator = Some a\<rparr>"
      and w1: "w1 = w\<lparr>stderr_out := e, s_allocator := Some a,
              heap := (heap w)(next_block w := Some (s @ [CHR 0x00])),
              next_block := Suc (next_block w),
              alloc_count := Suc (alloc_count w)\<rparr>"
      by simp_all
    have "length s < 2 ^ 64" using sh by simp
    then have "unat (of_nat (length s) :: size_t) = length s" by (rule size_t_of_nat)
    then show ?thesis
      using len_plus_one [OF sh] by (simp add: b w1 heap_read_def)
  qed
  have other: "capacity buf1 = len buf1" if ns: "js_typeof v \<noteq> napi_string"
  proof (cases v)
    case (JS_arraybuffer b)
    then show ?thesis using arraybuffer_path [OF h, of buf b] i by auto
  next
    case (JS_dataview b off n)
    then show ?thesis using dataview_path [OF h, of buf b off n] i by auto
  next
    case (JS_typedarray t b off n)
    then show ?thesis using typedarray_path [OF h, of buf t b off n] i by auto
  qed (use m ns in \<open>simp_all add: marshalable_def\<close>)
  show ?thesis
    using i c st r rt str other by auto
qed

theorem marshal_round_trip_witness:
  "host_ok demo_world \<and> alloc_oracle demo_world (alloc_count demo_world)
   \<and> fresh_heap demo_world
   \<and> marshalable demo_world (JS_string ''hi'')
   \<and> marshalable demo_world (JS_typedarray napi_uint16_array 0 2 3)
   \<and> js_bytes demo_world (JS_typedarray napi_uint16_array 0 2 3) = Some ''CDEFGH''
   \<and> (\<exists>buf1 w1 r w2.
         aws_byte_buf_init_from_napi zero_buf demo_world (JS_string ''hi'') = (napi_ok, buf1, w1)
         \<and> aws_napi_create_dataview_from_byte_cursor w1 (aws_byte_cursor_from_buf buf1)
             = (napi_ok, Some r, w2)
         \<and> js_bytes w2 r = Some ''hi''
         \<and> unat (len buf1) = 2 \<and> capacity buf1 = len buf1 + 1
         \<and> heap_read w1 (buffer buf1) (unat (capacity buf1)) = ''hi'' @ [CHR 0x00])
   \<and> (\<exists>buf1 w1 r w2.
         aws_byte_buf_init_from_napi zero_buf demo_world (JS_typedarray napi_uint16_array 0 2 3)
           = (napi_ok, buf1, w1)
         \<and> aws_napi_create_dataview_from_byte_cursor w1 (aws_byte_cursor_from_buf buf1)
             = (napi_ok, Some r, w2)
         \<and> js_bytes w2 r = Some ''CDEFGH'')"
proof -
  have h: "host_ok demo_world" by (simp add: host_ok_def demo_world_def)
  have a: "alloc_oracle demo_world (alloc_count demo_world)" by (simp add: demo_world_def)
  have f: "fresh_heap demo_world" by (simp add: fresh_heap_def demo_world_def)
  have m1: "marshalable demo_world (JS_string ''hi'')" by (simp add: marshalable_def)
  have m2: "marshalable demo_world (JS_typedarray napi_uint16_array 0 2 3)"
    by (simp add: marshalable_def js_element_size_def demo_world_def)
  have b2: "js_bytes demo_world (JS_typedarray napi_uint16_array 0 2 3) = Some ''CDEFGH''"
    by (simp add: js_bytes_def js_element_size_def heap_read_def demo_world_def)
  have b1: "js_bytes demo_world (JS_string ''hi'') = Some ''hi''"
    by (simp add: js_bytes_def)
  from marshal_round_trip [OF h a f m1, of zero_buf] obtain buf1 w1 r w2 where
    s: "aws_byte_buf_init_from_napi zero_buf demo_world (JS_string ''hi'') = (napi_ok, buf1, w1)"
       "aws_napi_create_dataview_from_byte_cursor w1 (aws_byte_cursor_from_buf buf1)
             = (napi_ok, Some r, w2)"
       "js_bytes w2 r = js_bytes demo_world (JS_string ''hi'')"
       "unat (len buf1) = length ''hi''" "capacity buf1 = len buf1 + 1"
       "heap_read w1 (buffer buf1) (unat (capacity buf1)) = ''hi'' @ [CHR 0x00]"
    by blast
  from marshal_round_trip [OF h a f m2, of zero_buf] obtain buf1' w1' r' w2' where
    t: "aws_byte_buf_init_from_napi zero_buf demo_world (JS_typedarray napi_uint16_array 0 2 3)
           = (napi_ok, buf1', w1')"
       "aws_napi_create_dataview_from_byte_cursor w1' (aws_byte_cursor_from_buf buf1')
             = (napi_ok, Some r', w2')"
       "js_bytes w2' r' = js_bytes demo_world (JS_typedarray napi_uint16_array 0 2 3)"
    by blast
  show ?thesis
    using h a f m1 m2 b2 s t b1 by auto
qed

subsection \<open>Ownership of the buffer and its clean-up\<close>

text \<open>What clean-up does is decided by the \<open>allocator\<close> field alone. The string path sets
  it; the three borrowing paths do not write it, so it keeps whatever the caller's structure
  held. With a structure that was zeroed, clean-up after a borrowing path releases
  nothing.\<close>

lemma borrowed_view_keeps_allocator_field:
  assumes "host_ok w" and "js_is_arraybuffer v \<or> js_is_dataview v \<or> js_is_typedarray v"
  shows "\<exists>buf1. aws_byte_buf_init_from_napi buf w v = (napi_ok, buf1, w)
           \<and> allocator buf1 = allocator buf"
proof (cases v)
  case (JS_arraybuffer b)
  then show ?thesis using arraybuffer_path [OF assms(1), of buf b] by simp
next
  case (JS_dataview b off n)
  then show ?thesis using dataview_path [OF assms(1), of buf b off n] by simp
next
  case (JS_typedarray t b off n)
  then show ?thesis using typedarray_path [OF assms(1), of buf t b off n] by simp
qed (use assms(2) in simp_all)

lemma clean_up_without_allocator_releases_nothing:
  "allocator buf1 = None \<Longrightarrow> snd (aws_byte_buf_clean_up buf1 w) = w"
  by (simp add: aws_byte_buf_clean_up_def)

lemma clean_up_with_allocator_releases_block:
  "allocator buf1 = Some a \<Longrightarrow> buffer buf1 = Some q \<Longrightarrow>
     heap (snd (aws_byte_buf_clean_up buf1 w)) (ptr_block q) = None
     \<and> trace (snd (aws_byte_buf_clean_up buf1 w)) = trace w @ [Mem_release a q]"
  by (simp add: aws_byte_buf_clean_up_def aws_mem_release_def)

text \<open>
  Claim C9: the code at a failing input. \<open>aws_string_new_from_napi\<close> is given an
  ArrayBuffer over block 0 while its uninitialised local holds a non-null allocator
  pointer. The string is built, and then the clean-up releases block 0, the ArrayBuffer's
  backing store, which the buffer had only borrowed.
\<close>

theorem string_new_from_napi_releases_borrowed_store:
  "(case aws_string_new_from_napi garbage_world (JS_arraybuffer 0) of
      (str, w') \<Rightarrow> (str, heap w' 0, trace w'))
     = (Some ''ABCDEFGH'', None, [Mem_release Default_allocator (Ptr 0 0)])
   \<and> heap garbage_world 0 = Some ''ABCDEFGH''"
  by (simp add: aws_string_new_from_napi_def garbage_world_def demo_world_def
      aws_byte_buf_init_from_napi_def napi_typeof_def napi_is_arraybuffer_def
      napi_get_arraybuffer_info_def block_size_def aws_napi_get_allocator_def
      aws_get_environment_value_def aws_string_new_from_array_def heap_read_def
      aws_byte_buf_clean_up_def aws_mem_release_def Let_def)

subsection \<open>The failure handler\<close>













lemma coerce_gives_string:
  "napi_coerce_to_string w v = (napi_ok, x) \<Longrightarrow> \<exists>s. x = JS_string s"
  by (cases v) (auto simp add: napi_coerce_to_string_def split: if_splits option.splits)





















subsection \<open>Threadsafe dispatch\<close>










end
